theory Spec2Isabelle
  imports Complex_Main
begin

section \<open>Python values and exceptions\<close>

text \<open>
  The stage \<^verbatim>\<open>pisa/stages/pid/param.py\<close> is Python 2 code (it tests
  \<^verbatim>\<open>basestring\<close> and compares a list with \<^verbatim>\<open>dict.keys()\<close>).
  Every \<^verbatim>\<open>raise\<close> of the source is a value \<open>Raise cls fmt args\<close>: the exception
  class, the format string of the message as written in the source, and the names and
  lists of names interpolated into it (an interpolated \<^verbatim>\<open>type(...)\<close> or number is
  left out). Exceptions of Python, numpy and the framework are values of the same kind.
\<close>

datatype exn = ValueError | TypeError | AttributeError | KeyError | IndexError
  | UnboundLocalError | SyntaxError

datatype pyarg = S string | L "string list"

datatype error = Raise exn string "pyarg list"

text \<open>
  The objects that a decoded parameterisation may hold: a string, a dictionary, or
  anything else (number, list, \<^verbatim>\<open>None\<close>, ...). A dictionary is an association
  list in the order in which \<^verbatim>\<open>keys()\<close> enumerates it (an
  \<^verbatim>\<open>OrderedDict\<close> keeps the order of the file, a plain Python 2
  \<^verbatim>\<open>dict\<close> its hash order).
\<close>

datatype pyobj = Str string | Dict "(string \<times> pyobj) list" | Other

definition keys :: "(string \<times> 'v) list \<Rightarrow> string list" where
  "keys d = map fst d"

subsection \<open>String methods used by the stage\<close>

text \<open>\<^verbatim>\<open>sub in s\<close> for strings.\<close>

fun py_in :: "string \<Rightarrow> string \<Rightarrow> bool" where
  "py_in sub [] = (sub = [])"
| "py_in sub (c # cs) = (take (length sub) (c # cs) = sub \<or> py_in sub cs)"

text \<open>
  \<^verbatim>\<open>s.split(c)\<close> for a one-character separator. The result is never empty,
  so the first branch of the case distinction is never taken.
\<close>

fun py_split :: "char \<Rightarrow> string \<Rightarrow> string list" where
  "py_split sep [] = [[]]"
| "py_split sep (c # cs) =
     (if c = sep then [] # py_split sep cs
      else (case py_split sep cs of
              [] \<Rightarrow> [[c]]
            | w # ws \<Rightarrow> (c # w) # ws))"

text \<open>
  \<^verbatim>\<open>s.replace(old, new)\<close>: every non-overlapping occurrence, scanning from the
  left. With an empty \<^verbatim>\<open>old\<close>, Python inserts \<^verbatim>\<open>new\<close> before every
  character and at the end.
\<close>

function py_replace :: "string \<Rightarrow> string \<Rightarrow> string \<Rightarrow> string" where
  "py_replace old new [] = (if old = [] then new else [])"
| "py_replace old new (c # cs) =
     (if old = [] then new @ c # py_replace old new cs
      else if take (length old) (c # cs) = old
           then new @ py_replace old new (drop (length old) (c # cs))
      else c # py_replace old new cs)"
  by pat_completeness auto
termination
  by (relation "measure (\<lambda>(old, new, s). length s)") (auto simp: Suc_diff_le)

section \<open>Binning, groups and the stage object\<close>

text \<open>
  \<^verbatim>\<open>OneDimBinning\<close>, \<^verbatim>\<open>MultiDimBinning\<close> and \<^verbatim>\<open>NuFlavIntGroup\<close>
  belong to the framework. The stage builds a one-dimensional binning from a name and
  bin edges, reads the names of a multi-dimensional binning in their declared order,
  looks a dimension up by name, converts a group to its string and asks whether an input
  name is in a group; these are the fields below. The \<^verbatim>\<open>weighted_centers\<close> of a
  dimension are computed by the framework and are a parameter \<open>wc\<close> of the functions
  that read them.
\<close>

record OneDimBinning =
  name :: string
  bin_edges :: "real list"

type_synonym MultiDimBinning = "OneDimBinning list"

definition names :: "MultiDimBinning \<Rightarrow> string list" where
  "names b = map name b"

text \<open>\<^verbatim>\<open>binning[dim_name]\<close> and \<^verbatim>\<open>binning.dim_name\<close>.\<close>

definition get_dim :: "MultiDimBinning \<Rightarrow> string \<Rightarrow> error + OneDimBinning" where
  "get_dim b n =
     (case find (\<lambda>d. name d = n) b of
        None \<Rightarrow> Inl (Raise AttributeError ''no dimension %s'' [S n])
      | Some d \<Rightarrow> Inr d)"

text \<open>
  Modelled from the spec: \<^verbatim>\<open>MultiDimBinning.__add__\<close> is not part of the stage;
  the synthetic axis is appended after the declared dimensions.
\<close>

definition binning_add :: "MultiDimBinning \<Rightarrow> OneDimBinning \<Rightarrow> MultiDimBinning" where
  "binning_add b d = b @ [d]"

record NuFlavIntGroup =
  str :: string
  contains :: "string \<Rightarrow> bool"

record param =
  input_binning :: MultiDimBinning
  output_binning :: MultiDimBinning
  input_names :: "string list"
  output_names :: "string list"
  transform_groups :: "NuFlavIntGroup list"
  pid_energy_paramfile :: pyobj
  energy_param_dict :: "pyobj option"
  energy_param_hash :: "nat option"

text \<open>\<^verbatim>\<open>self.output_channels = ('trck', 'cscd')\<close>, set by the constructor.\<close>

definition output_channels :: "string list" where
  "output_channels = [''trck'', ''cscd'']"

definition suffix_channel :: "string \<Rightarrow> string \<Rightarrow> string" where
  "suffix_channel flavint channel = flavint @ ''_'' @ channel"

section \<open>Binning validation\<close>

definition msg_no_energy :: string where
  "msg_no_energy = ''Input binning must contain \"reco_energy\".''"

definition msg_azimuth :: string where
  "msg_azimuth = ''Input binning cannot have azimuth present for this parameterised PID service.''"

definition msg_first_dim :: string where
  "msg_first_dim = ''Got a name for the first binning dimension that was unexpected - '%s'.''"

definition validate_binning :: "param \<Rightarrow> error + unit" where
  "validate_binning self =
     (if ''reco_energy'' \<notin> set (names (input_binning self))
      then Inl (Raise ValueError msg_no_energy [])
      else if ''reco_azimuth'' \<in> set (names (input_binning self))
      then Inl (Raise ValueError msg_azimuth [])
      else (case names (input_binning self) of
              [] \<Rightarrow> Inl (Raise IndexError ''list index out of range'' [])
            | n0 # _ \<Rightarrow>
                if n0 \<noteq> ''reco_energy'' \<and> n0 \<noteq> ''reco_coszen''
                then Inl (Raise ValueError msg_first_dim [S n0])
                else Inr ()))"

text \<open>\<open>raises cls r\<close>: the call ended in an exception of class \<open>cls\<close>.\<close>

fun raises :: "exn \<Rightarrow> error + 'a \<Rightarrow> bool" where
  "raises cls (Inl (Raise c fmt args)) = (c = cls)"
| "raises cls (Inr v) = False"

section \<open>Loading and looking up the parameterisation\<close>

text \<open>
  \<^verbatim>\<open>hash_obj\<close> and \<^verbatim>\<open>from_file\<close> are the framework's; they are
  parameters. The second component of the result lists the resources that this call
  handed to \<^verbatim>\<open>from_file\<close>, in order: what a counting reader would count.
  A source that is neither a string nor a dictionary leaves the local variable
  \<^verbatim>\<open>energy_param_dict\<close> unbound.
\<close>

definition msg_unbound :: string where
  "msg_unbound = ''local variable 'energy_param_dict' referenced before assignment''"

definition load_pid_energy_param ::
  "(pyobj \<Rightarrow> nat) \<Rightarrow> (string \<Rightarrow> error + pyobj) \<Rightarrow> param \<Rightarrow> pyobj
     \<Rightarrow> error + (param \<times> string list)" where
  "load_pid_energy_param hash_obj from_file self pid_energy_param =
     (let this_hash = hash_obj pid_energy_param in
      if energy_param_hash self = Some this_hash then Inr (self, [])
      else (case pid_energy_param of
              Str path \<Rightarrow>
                (case from_file path of
                   Inl e \<Rightarrow> Inl e
                 | Inr d \<Rightarrow>
                     Inr (self\<lparr>energy_param_dict := Some d,
                                energy_param_hash := Some this_hash\<rparr>, [path]))
            | Dict d \<Rightarrow>
                Inr (self\<lparr>energy_param_dict := Some (Dict d),
                           energy_param_hash := Some this_hash\<rparr>, [])
            | Other \<Rightarrow> Inl (Raise UnboundLocalError msg_unbound [])))"

text \<open>\<^verbatim>\<open>self.energy_param_dict.keys()\<close> needs the attribute, and a dictionary in it.\<close>

fun dict_of :: "pyobj option \<Rightarrow> error + (string \<times> pyobj) list" where
  "dict_of (Some (Dict d)) = Inr d"
| "dict_of (Some v) = Inl (Raise AttributeError ''object has no attribute 'keys' '' [])"
| "dict_of None =
     Inl (Raise AttributeError ''object has no attribute 'energy_param_dict' '' [])"

text \<open>\<^verbatim>\<open>d[k]\<close>.\<close>

definition dict_get :: "(string \<times> 'v) list \<Rightarrow> string \<Rightarrow> error + 'v" where
  "dict_get d k = (case map_of d k of None \<Rightarrow> Inl (Raise KeyError ''%s'' [S k]) | Some v \<Rightarrow> Inr v)"

definition msg_nu_not_in_keys :: string where
  "msg_nu_not_in_keys =
     ''Got flavour '%s' which is not in the parameterisation dictionary keys - %s''"

definition msg_not_joined :: string where
  "msg_not_joined = ''Expected to get joined flav of nu+nubar but instead got '%s'.''"

definition msg_not_in_keys_or_comb :: string where
  "msg_not_in_keys_or_comb =
     ''Got flavour '%s' which is not in the parameterisation  dictionary keys - %s or a flavour combination.''"

definition find_energy_param :: "param \<Rightarrow> string \<Rightarrow> error + pyobj" where
  "find_energy_param self flavstr =
     (case dict_of (energy_param_dict self) of
        Inl e \<Rightarrow> Inl e
      | Inr d \<Rightarrow>
          if flavstr \<notin> set (keys d) then
            if CHR ''+'' \<in> set flavstr then
              (let nubar = last (py_split (CHR ''+'') flavstr);
                   nu = hd (py_split (CHR ''+'') flavstr)
               in if py_replace ''bar'' [] nubar = nu then
                    if nu \<in> set (keys d) then dict_get d nu
                    else Inl (Raise ValueError msg_nu_not_in_keys [S nu, L (keys d)])
                  else Inl (Raise ValueError msg_not_joined [S flavstr]))
            else Inl (Raise ValueError msg_not_in_keys_or_comb [S flavstr, L (keys d)])
          else dict_get d flavstr)"

section \<open>Arrays\<close>

text \<open>
  A numeric array is its shape and its elements in row-major order; a Python float is
  the array of shape \<open>[]\<close>. The stage only copies elements, so they are reals here.
\<close>

datatype ndarray = NDArray (shape: "nat list") (flat: "real list")

fun indices :: "nat list \<Rightarrow> nat list list" where
  "indices [] = [[]]"
| "indices (n # ns) = concat (map (\<lambda>i. map ((#) i) (indices ns)) [0..<n])"

fun ravel :: "nat list \<Rightarrow> nat list \<Rightarrow> nat" where
  "ravel (n # ns) (i # js) = i * prod_list ns + ravel ns js"
| "ravel ns js = 0"

text \<open>\<^verbatim>\<open>a[i0, i1, ...]\<close> (\<^verbatim>\<open>a.item(i0, i1, ...)\<close>) for an index inside the shape.\<close>

definition item :: "ndarray \<Rightarrow> nat list \<Rightarrow> real" where
  "item a idx = flat a ! ravel (shape a) idx"

definition index_of :: "nat list \<Rightarrow> nat \<Rightarrow> nat" where
  "index_of axes d = length (takeWhile (\<lambda>x. x \<noteq> d) axes)"

text \<open>
  \<^verbatim>\<open>a.transpose(axes)\<close>: axis \<open>k\<close> of the result is axis \<open>axes ! k\<close> of \<open>a\<close>.
\<close>

definition np_transpose :: "ndarray \<Rightarrow> nat list \<Rightarrow> ndarray" where
  "np_transpose a axes =
     NDArray (map (\<lambda>k. shape a ! k) axes)
       (map (\<lambda>j. item a (map (\<lambda>d. j ! index_of axes d) [0..<length axes]))
            (indices (map (\<lambda>k. shape a ! k) axes)))"

text \<open>\<^verbatim>\<open>a.T\<close> reverses the axes.\<close>

definition np_T :: "ndarray \<Rightarrow> ndarray" where
  "np_T a = np_transpose a (rev [0..<length (shape a)])"

text \<open>\<^verbatim>\<open>np.repeat(a, n)\<close> without an axis: flattens, and repeats each element.\<close>

definition np_repeat :: "ndarray \<Rightarrow> nat \<Rightarrow> ndarray" where
  "np_repeat a n = NDArray [length (flat a) * n] (concat (map (replicate n) (flat a)))"

definition msg_reshape :: string where
  "msg_reshape = ''cannot reshape array of size %d into shape %s''"

definition np_reshape :: "ndarray \<Rightarrow> nat list \<Rightarrow> error + ndarray" where
  "np_reshape a shp =
     (if prod_list shp = length (flat a) then Inr (NDArray shp (flat a))
      else Inl (Raise ValueError msg_reshape []))"

text \<open>
  \<^verbatim>\<open>np.array([h0, h1, ...])\<close> of arrays of one shape stacks them along a new
  first axis; arrays of different shapes do not make a numeric array.
\<close>

definition msg_inhomogeneous :: string where
  "msg_inhomogeneous = ''setting an array element with a sequence.''"

definition np_array :: "ndarray list \<Rightarrow> error + ndarray" where
  "np_array hs =
     (case hs of
        [] \<Rightarrow> Inr (NDArray [0] [])
      | h # rest \<Rightarrow>
          if \<forall>h' \<in> set rest. shape h' = shape h
          then Inr (NDArray (length hs # shape h) (concat (map flat hs)))
          else Inl (Raise ValueError msg_inhomogeneous []))"

text \<open>
  \<^verbatim>\<open>np.rollaxis(a, axis, start)\<close> for non-negative arguments, as numpy defines it:
  both are range-checked against the number of dimensions, then the axis is removed
  from the list of axes and inserted again at \<open>start\<close>.
\<close>

definition msg_rollaxis :: string where
  "msg_rollaxis = ''rollaxis: %s (%d) must be >=0 and < %d''"

definition rollaxis :: "ndarray \<Rightarrow> nat \<Rightarrow> nat \<Rightarrow> error + ndarray" where
  "rollaxis a axis start =
     (let n = length (shape a) in
      if \<not> axis < n then Inl (Raise ValueError msg_rollaxis [S ''axis''])
      else if \<not> start < n + 1 then Inl (Raise ValueError msg_rollaxis [S ''start''])
      else (let start' = (if axis < start then start - 1 else start) in
            if axis = start' then Inr a
            else Inr (np_transpose a
                   (take start' (remove1 axis [0..<n]) @ axis #
                    drop start' (remove1 axis [0..<n])))))"

section \<open>Computing the transforms\<close>

text \<open>
  \<^verbatim>\<open>BinnedTensorTransform\<close> and \<^verbatim>\<open>TransformSet\<close> are the framework's
  containers; a transform keeps what the stage hands to its constructor.
\<close>

record BinnedTensorTransform =
  xf_input_names :: string
  xf_output_name :: string
  xf_input_binning :: MultiDimBinning
  xf_output_binning :: MultiDimBinning
  xform_array :: ndarray

datatype TransformSet = TransformSet (transforms: "BinnedTensorTransform list")

text \<open>
  \<^verbatim>\<open>eval(pid_param)\<close> is a parameter \<open>ev\<close>: it may raise, or give an object that
  is called with the array of energy bin centres and may raise or return an array.
\<close>

type_synonym pyfun = "real list \<Rightarrow> error + ndarray"

text \<open>Lines 321-331: the curve in the dimensionality of the input binning.\<close>

definition make_xform_array ::
  "(OneDimBinning \<Rightarrow> real list) \<Rightarrow> param \<Rightarrow> real list \<Rightarrow> ndarray \<Rightarrow> error + ndarray" where
  "make_xform_array wc self ecen pid1d =
     (if ''reco_coszen'' \<in> set (names (input_binning self)) then
        (case get_dim (input_binning self) ''reco_coszen'' of
           Inl e \<Rightarrow> Inl e
         | Inr czdim \<Rightarrow>
             (case np_reshape (np_repeat pid1d (length (wc czdim)))
                     [length ecen, length (wc czdim)] of
                Inl e \<Rightarrow> Inl e
              | Inr pid2d \<Rightarrow>
                  (case names (input_binning self) of
                     [] \<Rightarrow> Inl (Raise IndexError ''list index out of range'' [])
                   | n0 # _ \<Rightarrow>
                       Inr (if n0 = ''reco_coszen'' then np_T pid2d else pid2d))))
      else Inr pid1d)"

text \<open>Lines 334-344: one transform for each input name in the group.\<close>

definition group_inputs :: "param \<Rightarrow> NuFlavIntGroup \<Rightarrow> string list" where
  "group_inputs self flav_int_group = filter (contains flav_int_group) (input_names self)"

definition input_transforms ::
  "param \<Rightarrow> NuFlavIntGroup \<Rightarrow> string \<Rightarrow> ndarray \<Rightarrow> BinnedTensorTransform list" where
  "input_transforms self flav_int_group sig xa =
     map (\<lambda>input_name.
            \<lparr>xf_input_names = input_name,
             xf_output_name = suffix_channel input_name sig,
             xf_input_binning = input_binning self,
             xf_output_binning = input_binning self,
             xform_array = xa\<rparr>)
         (group_inputs self flav_int_group)"

definition msg_not_string :: string where
  "msg_not_string = ''Got '%s' for the parameterisation while expected a string.''"

text \<open>Lines 313-316: only \<^verbatim>\<open>norm\<close> is imported from \<^verbatim>\<open>scipy.stats\<close>.\<close>

definition norm_alias :: "string \<Rightarrow> string" where
  "norm_alias pid_param =
     (if py_in ''scipy.stats.norm'' pid_param
      then py_replace ''scipy.stats.norm'' ''norm'' pid_param
      else pid_param)"

text \<open>
  Lines 306-331: the weight array of one output channel of a group, evaluated once.
\<close>

definition channel_array ::
  "(OneDimBinning \<Rightarrow> real list) \<Rightarrow> (string \<Rightarrow> error + pyfun) \<Rightarrow> param \<Rightarrow> real list
     \<Rightarrow> (string \<times> pyobj) list \<Rightarrow> string \<Rightarrow> error + ndarray" where
  "channel_array wc ev self ecen energy_param sig =
     (case dict_get energy_param sig of
        Inl e \<Rightarrow> Inl e
      | Inr (Str pid_param) \<Rightarrow>
          (case ev (norm_alias pid_param) of
             Inl e \<Rightarrow> Inl e
           | Inr f \<Rightarrow>
               (case f ecen of
                  Inl e \<Rightarrow> Inl e
                | Inr pid1d \<Rightarrow> make_xform_array wc self ecen pid1d))
      | Inr other \<Rightarrow> Inl (Raise TypeError msg_not_string []))"

text \<open>Lines 306-344: the body of the loop over the output channels.\<close>

definition channel_transforms ::
  "(OneDimBinning \<Rightarrow> real list) \<Rightarrow> (string \<Rightarrow> error + pyfun) \<Rightarrow> param \<Rightarrow> real list
     \<Rightarrow> NuFlavIntGroup \<Rightarrow> (string \<times> pyobj) list \<Rightarrow> string
     \<Rightarrow> error + BinnedTensorTransform list" where
  "channel_transforms wc ev self ecen flav_int_group energy_param sig =
     (case channel_array wc ev self ecen energy_param sig of
        Inl e \<Rightarrow> Inl e
      | Inr xa \<Rightarrow> Inr (input_transforms self flav_int_group sig xa))"

fun channels_loop ::
  "(OneDimBinning \<Rightarrow> real list) \<Rightarrow> (string \<Rightarrow> error + pyfun) \<Rightarrow> param \<Rightarrow> real list
     \<Rightarrow> NuFlavIntGroup \<Rightarrow> (string \<times> pyobj) list \<Rightarrow> string list
     \<Rightarrow> error + BinnedTensorTransform list" where
  "channels_loop wc ev self ecen g energy_param [] = Inr []"
| "channels_loop wc ev self ecen g energy_param (sig # sigs) =
     (case channel_transforms wc ev self ecen g energy_param sig of
        Inl e \<Rightarrow> Inl e
      | Inr ts \<Rightarrow>
          (case channels_loop wc ev self ecen g energy_param sigs of
             Inl e \<Rightarrow> Inl e
           | Inr ts' \<Rightarrow> Inr (ts @ ts')))"

definition msg_not_dict :: string where
  "msg_not_dict =
     ''Loaded energy PID parameterisation should be a dictionary but got '%s.'' @ [CHR 0x27]"

definition msg_channels :: string where
  "msg_channels =
     ''Expected output channels, %s, does not match the list of PID classifications in the energy PID parameterisation - %s.''"

text \<open>Lines 286-344: the body of the loop over the transform groups.\<close>

definition group_transforms ::
  "(OneDimBinning \<Rightarrow> real list) \<Rightarrow> (string \<Rightarrow> error + pyfun) \<Rightarrow> param \<Rightarrow> real list
     \<Rightarrow> NuFlavIntGroup \<Rightarrow> error + BinnedTensorTransform list" where
  "group_transforms wc ev self ecen flav_int_group =
     (case find_energy_param self (str flav_int_group) of
        Inl e \<Rightarrow> Inl e
      | Inr (Dict energy_param) \<Rightarrow>
          if output_channels \<noteq> keys energy_param
          then Inl (Raise ValueError msg_channels [L output_channels, L (keys energy_param)])
          else channels_loop wc ev self ecen flav_int_group energy_param output_channels
      | Inr other \<Rightarrow> Inl (Raise TypeError msg_not_dict []))"

fun groups_loop ::
  "(OneDimBinning \<Rightarrow> real list) \<Rightarrow> (string \<Rightarrow> error + pyfun) \<Rightarrow> param \<Rightarrow> real list
     \<Rightarrow> NuFlavIntGroup list \<Rightarrow> error + BinnedTensorTransform list" where
  "groups_loop wc ev self ecen [] = Inr []"
| "groups_loop wc ev self ecen (g # gs) =
     (case group_transforms wc ev self ecen g of
        Inl e \<Rightarrow> Inl e
      | Inr ts \<Rightarrow>
          (case groups_loop wc ev self ecen gs of
             Inl e \<Rightarrow> Inl e
           | Inr ts' \<Rightarrow> Inr (ts @ ts')))"

text \<open>
  \<^verbatim>\<open>_compute_nominal_transforms\<close>: the transform set, the stage with the loaded
  parameterisation, and the resources read.
\<close>

definition compute_nominal_transforms ::
  "(OneDimBinning \<Rightarrow> real list) \<Rightarrow> (pyobj \<Rightarrow> nat) \<Rightarrow> (string \<Rightarrow> error + pyobj)
     \<Rightarrow> (string \<Rightarrow> error + pyfun) \<Rightarrow> param
     \<Rightarrow> error + (TransformSet \<times> param \<times> string list)" where
  "compute_nominal_transforms wc hash_obj from_file ev self =
     (case get_dim (input_binning self) ''reco_energy'' of
        Inl e \<Rightarrow> Inl e
      | Inr edim \<Rightarrow>
          (case load_pid_energy_param hash_obj from_file self (pid_energy_paramfile self) of
             Inl e \<Rightarrow> Inl e
           | Inr (self', reads) \<Rightarrow>
               (case groups_loop wc ev self' (wc edim) (transform_groups self') of
                  Inl e \<Rightarrow> Inl e
                | Inr ts \<Rightarrow> Inr (TransformSet ts, self', reads))))"

section \<open>Recombining the outputs\<close>

record Map =
  map_name :: string
  hist :: ndarray
  binning :: MultiDimBinning

record MapSet =
  maps :: "Map list"
  ms_name :: string
  ms_tex :: string

text \<open>\<^verbatim>\<open>outputs[name]\<close>.\<close>

definition mapset_get :: "MapSet \<Rightarrow> string \<Rightarrow> error + Map" where
  "mapset_get ms n =
     (case find (\<lambda>m. map_name m = n) (maps ms) of
        None \<Rightarrow> Inl (Raise KeyError ''%s'' [S n])
      | Some m \<Rightarrow> Inr m)"

definition dummy_pid :: OneDimBinning where
  "dummy_pid = \<lparr>name = ''pid'', bin_edges = [0, 1, 2]\<rparr>"

text \<open>Lines 362-366: the body of the loop over the output names.\<close>

definition new_map :: "MapSet \<Rightarrow> MultiDimBinning \<Rightarrow> string \<Rightarrow> error + Map" where
  "new_map outputs ob n =
     (case mapset_get outputs (n @ ''_cscd'') of
        Inl e \<Rightarrow> Inl e
      | Inr cscd \<Rightarrow>
          (case mapset_get outputs (n @ ''_trck'') of
             Inl e \<Rightarrow> Inl e
           | Inr trck \<Rightarrow>
               (case np_array [hist cscd, hist trck] of
                  Inl e \<Rightarrow> Inl e
                | Inr h \<Rightarrow>
                    (case rollaxis h 0 3 of
                       Inl e \<Rightarrow> Inl e
                     | Inr h' \<Rightarrow> Inr \<lparr>map_name = n, hist = h', binning = ob\<rparr>))))"

fun new_maps_loop :: "MapSet \<Rightarrow> MultiDimBinning \<Rightarrow> string list \<Rightarrow> error + Map list" where
  "new_maps_loop outputs ob [] = Inr []"
| "new_maps_loop outputs ob (n # ns) =
     (case new_map outputs ob n of
        Inl e \<Rightarrow> Inl e
      | Inr m \<Rightarrow>
          (case new_maps_loop outputs ob ns of
             Inl e \<Rightarrow> Inl e
           | Inr ms \<Rightarrow> Inr (m # ms)))"

text \<open>
  \<^verbatim>\<open>get_outputs\<close>. The base class's \<^verbatim>\<open>get_outputs\<close>, which applies the
  transforms to the inputs, is the parameter \<open>super_get_outputs\<close>; it runs on the
  stage whose output binning is set to the input binning.
\<close>

definition get_outputs ::
  "(param \<Rightarrow> 'i \<Rightarrow> error + MapSet) \<Rightarrow> param \<Rightarrow> 'i \<Rightarrow> error + (MapSet \<times> param)" where
  "get_outputs super_get_outputs self inputs =
     (let orig_output_binning = output_binning self;
          self1 = self\<lparr>output_binning := input_binning self\<rparr>
      in case super_get_outputs self1 inputs of
           Inl e \<Rightarrow> Inl e
         | Inr outputs \<Rightarrow>
             (let self2 =
                    (if ''pid'' \<notin> set (names orig_output_binning)
                     then self1\<lparr>output_binning := binning_add orig_output_binning dummy_pid\<rparr>
                     else self1\<lparr>output_binning := orig_output_binning\<rparr>)
              in case new_maps_loop outputs (output_binning self2) (output_names self2) of
                   Inl e \<Rightarrow> Inl e
                 | Inr new_maps \<Rightarrow>
                     Inr (\<lparr>maps = new_maps, ms_name = ms_name outputs,
                           ms_tex = ms_tex outputs\<rparr>, self2)))"

section \<open>Example inputs and notions of the statements\<close>

text \<open>A stage whose input binning has the given axis names.\<close>

definition stage_with_binning :: "string list \<Rightarrow> param" where
  "stage_with_binning ns =
     \<lparr>input_binning = map (\<lambda>n. \<lparr>name = n, bin_edges = [0, 1]\<rparr>) ns, output_binning = [],
      input_names = [], output_names = [], transform_groups = [],
      pid_energy_paramfile = Other, energy_param_dict = None, energy_param_hash = None\<rparr>"

text \<open>A stage that holds the decoded parameterisation \<open>d\<close>.\<close>

definition stage_with_param_dict :: "(string \<times> pyobj) list \<Rightarrow> param" where
  "stage_with_param_dict d = (stage_with_binning [])\<lparr>energy_param_dict := Some (Dict d)\<rparr>"

text \<open>\<open>interpolates r v\<close>: the call raised, and \<open>v\<close> is interpolated into the message.\<close>

fun interpolates :: "error + 'a \<Rightarrow> pyarg \<Rightarrow> bool" where
  "interpolates (Inl (Raise c fmt args)) v = (v \<in> set args)"
| "interpolates (Inr x) v = False"

text \<open>A resource reader that decodes every resource to the same parameterisation.\<close>

definition example_reader :: "string \<Rightarrow> error + pyobj" where
  "example_reader path =
     Inr (Dict [(''numu_cc'', Dict [(''trck'', Str ''t''), (''cscd'', Str ''c'')])])"

text \<open>
  The scenario of the specification: one group \<^verbatim>\<open>numu_cc\<close>, the input
  \<^verbatim>\<open>numu_cc\<close>, energy bin centres 1, 10, 100 and, when the binning has a zenith
  axis, zenith bin centres -0.5 and 0.5.
\<close>

definition example_dim :: "string \<Rightarrow> OneDimBinning" where
  "example_dim n =
     \<lparr>name = n,
      bin_edges = (if n = ''reco_energy'' then [3 / 10, 3, 30, 300]
                   else if n = ''reco_coszen'' then [- 1, 0, 1]
                   else if n = ''pid'' then [0, 1 / 2, 1] else [0, 1])\<rparr>"

definition example_centers :: "OneDimBinning \<Rightarrow> real list" where
  "example_centers d =
     (if name d = ''reco_energy'' then [1, 10, 100]
      else if name d = ''reco_coszen'' then [- 1 / 2, 1 / 2] else [])"

definition numu_cc_group :: NuFlavIntGroup where
  "numu_cc_group = \<lparr>str = ''numu_cc'', contains = (\<lambda>n. n = ''numu_cc'')\<rparr>"

definition example_stage :: "string list \<Rightarrow> (string \<times> pyobj) list \<Rightarrow> param" where
  "example_stage ns d =
     \<lparr>input_binning = map example_dim ns, output_binning = map example_dim ns,
      input_names = [''numu_cc''], output_names = [''numu_cc''],
      transform_groups = [numu_cc_group],
      pid_energy_paramfile = Dict d, energy_param_dict = None, energy_param_hash = None\<rparr>"

text \<open>
  What \<^verbatim>\<open>eval\<close> gives for four expressions. Called with a numpy array,
  \<^verbatim>\<open>lambda E: 0.9\<close> returns the float 0.9, and \<^verbatim>\<open>lambda E: 0.9 + 0*E\<close>
  returns an array with 0.9 for every element of \<^verbatim>\<open>E\<close>.
\<close>

definition example_eval :: "string \<Rightarrow> error + pyfun" where
  "example_eval expr =
     (if expr = ''lambda E: 0.9 + 0*E''
      then Inr (\<lambda>E. Inr (NDArray [length E] (map (\<lambda>x. 9 / 10) E)))
      else if expr = ''lambda E: 0.1 + 0*E''
      then Inr (\<lambda>E. Inr (NDArray [length E] (map (\<lambda>x. 1 / 10) E)))
      else if expr = ''lambda E: 0.9'' then Inr (\<lambda>E. Inr (NDArray [] [9 / 10]))
      else if expr = ''lambda E: 0.1'' then Inr (\<lambda>E. Inr (NDArray [] [1 / 10]))
      else Inl (Raise SyntaxError ''invalid syntax'' []))"

definition example_hash :: "pyobj \<Rightarrow> nat" where
  "example_hash src = 7"

text \<open>\<open>in_shape shp idx\<close>: \<open>idx\<close> is an index of an array of shape \<open>shp\<close>.\<close>

fun in_shape :: "nat list \<Rightarrow> nat list \<Rightarrow> bool" where
  "in_shape [] [] = True"
| "in_shape (n # ns) (i # js) = (i < n \<and> in_shape ns js)"
| "in_shape ns js = False"

text \<open>
  The shape of a binning: the number of bins, that is of bin centres, of each
  dimension, in the declared order.
\<close>

definition binning_shape :: "(OneDimBinning \<Rightarrow> real list) \<Rightarrow> MultiDimBinning \<Rightarrow> nat list" where
  "binning_shape wc b = map (\<lambda>d. length (wc d)) b"

text \<open>
  Three parameterisations for the scenario: plain constants, constants written so that
  they are arrays, and the latter with the cascade entry stored first.
\<close>

definition const_param :: "(string \<times> pyobj) list" where
  "const_param =
     [(''numu_cc'', Dict [(''trck'', Str ''lambda E: 0.9''), (''cscd'', Str ''lambda E: 0.1'')])]"

definition vector_param :: "(string \<times> pyobj) list" where
  "vector_param =
     [(''numu_cc'', Dict [(''trck'', Str ''lambda E: 0.9 + 0*E''),
                         (''cscd'', Str ''lambda E: 0.1 + 0*E'')])]"

definition swapped_param :: "(string \<times> pyobj) list" where
  "swapped_param =
     [(''numu_cc'', Dict [(''cscd'', Str ''lambda E: 0.1 + 0*E''),
                         (''trck'', Str ''lambda E: 0.9 + 0*E'')])]"

text \<open>
  Outputs of the base class for the scenario: the track and the cascade histogram of
  \<^verbatim>\<open>numu_cc\<close>, in the output binning of the stage that it runs on.
\<close>

definition example_outputs :: "MultiDimBinning \<Rightarrow> ndarray \<Rightarrow> ndarray \<Rightarrow> MapSet" where
  "example_outputs b h_cscd h_trck =
     \<lparr>maps = [\<lparr>map_name = ''numu_cc_trck'', hist = h_trck, binning = b\<rparr>,
              \<lparr>map_name = ''numu_cc_cscd'', hist = h_cscd, binning = b\<rparr>],
      ms_name = ''pid'', ms_tex = ''pid''\<rparr>"

definition example_super :: "ndarray \<Rightarrow> ndarray \<Rightarrow> param \<Rightarrow> unit \<Rightarrow> error + MapSet" where
  "example_super h_cscd h_trck self inputs = Inr (example_outputs (output_binning self) h_cscd h_trck)"




text \<open>
  A second group that resolves to the entry of \<^verbatim>\<open>numu_cc\<close> and also contains
  \<^verbatim>\<open>numu_cc\<close>, and a stage with this group, the group \<^verbatim>\<open>numu_cc\<close> and an
  input \<^verbatim>\<open>nue_cc\<close> that is in neither.
\<close>

definition numu_pair_group :: NuFlavIntGroup where
  "numu_pair_group =
     \<lparr>str = ''numu_cc+numubar_cc'', contains = (\<lambda>n. n = ''numu_cc'' \<or> n = ''numubar_cc'')\<rparr>"

definition overlap_stage :: param where
  "overlap_stage =
     (example_stage [''reco_energy''] vector_param)
       \<lparr>input_names := [''numu_cc'', ''numubar_cc'', ''nue_cc''],
        transform_groups := [numu_cc_group, numu_pair_group]\<rparr>"

definition example_xform :: "string \<Rightarrow> string \<Rightarrow> ndarray \<Rightarrow> BinnedTensorTransform" where
  "example_xform n sig xa =
     \<lparr>xf_input_names = n, xf_output_name = n @ ''_'' @ sig,
      xf_input_binning = [example_dim ''reco_energy''],
      xf_output_binning = [example_dim ''reco_energy''], xform_array = xa\<rparr>"

text \<open>
  \<open>broadcast_of wc b pid1d xa\<close>: the array \<open>xa\<close> is the curve \<open>pid1d\<close> in the shape of the
  binning \<open>b\<close>, for the three binnings with an energy axis and at most a zenith axis:
  the curve itself; one row per energy bin, constant along the zenith axis; or, zenith
  first, one column per energy bin.
\<close>

definition broadcast_of ::
  "(OneDimBinning \<Rightarrow> real list) \<Rightarrow> MultiDimBinning \<Rightarrow> ndarray \<Rightarrow> ndarray \<Rightarrow> bool" where
  "broadcast_of wc b pid1d xa \<longleftrightarrow>
     (names b = [''reco_energy'']
        \<longrightarrow> xa = pid1d \<and> shape xa = binning_shape wc b) \<and>
     (names b = [''reco_energy'', ''reco_coszen'']
        \<longrightarrow> shape xa = binning_shape wc b \<and>
            (\<forall>i < length (wc (b ! 0)). \<forall>j < length (wc (b ! 1)).
               item xa [i, j] = item pid1d [i])) \<and>
     (names b = [''reco_coszen'', ''reco_energy'']
        \<longrightarrow> shape xa = binning_shape wc b \<and>
            (\<forall>i < length (wc (b ! 1)). \<forall>j < length (wc (b ! 0)).
               item xa [j, i] = item pid1d [i]))"

text \<open>
  What \<^verbatim>\<open>eval\<close> gives for two expressions that numpy evaluates element by
  element, and a parameterisation with these expressions.
\<close>

definition curve_eval :: "string \<Rightarrow> error + pyfun" where
  "curve_eval expr =
     (if expr = ''lambda E: 1. / E''
      then Inr (\<lambda>E. Inr (NDArray [length E] (map (\<lambda>x. 1 / x) E)))
      else if expr = ''lambda E: 1. - 1. / E''
      then Inr (\<lambda>E. Inr (NDArray [length E] (map (\<lambda>x. 1 - 1 / x) E)))
      else Inl (Raise SyntaxError ''invalid syntax'' []))"

definition decay_param :: "(string \<times> pyobj) list" where
  "decay_param =
     [(''numu_cc'', Dict [(''trck'', Str ''lambda E: 1. / E''),
                         (''cscd'', Str ''lambda E: 1. - 1. / E'')])]"

section \<open>Verified properties\<close>

subsection \<open>Binning validation\<close>

lemma names_stage_with_binning: "names (input_binning (stage_with_binning ns)) = ns"
  by (simp add: stage_with_binning_def names_def comp_def)

text \<open>
  C6. Binning validation rejects every input binning that contains an azimuth axis
  (\<^verbatim>\<open>reco_azimuth\<close>), every input binning that lacks an energy axis
  (\<^verbatim>\<open>reco_energy\<close>), and every input binning whose first declared axis is neither
  the energy axis nor the zenith axis (\<^verbatim>\<open>reco_coszen\<close>); the rejection is the
  \<^verbatim>\<open>ValueError\<close> that the source raises for a bad configuration. An input
  binning that has an energy axis, has no azimuth axis, and whose first axis is energy or
  zenith passes validation.
\<close>

theorem validate_binning_spec:
  "(''reco_azimuth'' \<in> set (names (input_binning self))
      \<longrightarrow> raises ValueError (validate_binning self)) \<and>
   (''reco_energy'' \<notin> set (names (input_binning self))
      \<longrightarrow> raises ValueError (validate_binning self)) \<and>
   ((\<exists>n0 rest. names (input_binning self) = n0 # rest \<and> n0 \<noteq> ''reco_energy''
        \<and> n0 \<noteq> ''reco_coszen'')
      \<longrightarrow> raises ValueError (validate_binning self)) \<and>
   (''reco_energy'' \<in> set (names (input_binning self)) \<and>
    ''reco_azimuth'' \<notin> set (names (input_binning self)) \<and>
    (\<exists>rest. names (input_binning self) = ''reco_energy'' # rest \<or>
            names (input_binning self) = ''reco_coszen'' # rest)
      \<longrightarrow> validate_binning self = Inr ())"
  by (auto simp: validate_binning_def split: list.splits)

theorem validate_binning_spec_witness:
  "raises ValueError (validate_binning
      (stage_with_binning [''reco_energy'', ''reco_coszen'', ''reco_azimuth''])) \<and>
   raises ValueError (validate_binning (stage_with_binning [''reco_coszen''])) \<and>
   raises ValueError (validate_binning (stage_with_binning [''pid'', ''reco_energy''])) \<and>
   validate_binning (stage_with_binning [''reco_coszen'', ''reco_energy'']) = Inr () \<and>
   validate_binning (stage_with_binning [''reco_energy'']) = Inr ()"
  using validate_binning_spec
          [of "stage_with_binning [''reco_energy'', ''reco_coszen'', ''reco_azimuth'']"]
        validate_binning_spec [of "stage_with_binning [''reco_coszen'']"]
        validate_binning_spec [of "stage_with_binning [''pid'', ''reco_energy'']"]
        validate_binning_spec [of "stage_with_binning [''reco_coszen'', ''reco_energy'']"]
        validate_binning_spec [of "stage_with_binning [''reco_energy'']"]
  by (simp add: names_stage_with_binning)

subsection \<open>The loader\<close>

lemma load_cached:
  "energy_param_hash self = Some (hash_obj src)
     \<Longrightarrow> load_pid_energy_param hash_obj from_file self src = Inr (self, [])"
  by (simp add: load_pid_energy_param_def)

lemma load_sets_hash:
  "load_pid_energy_param hash_obj from_file self src = Inr (self', reads)
     \<Longrightarrow> energy_param_hash self' = Some (hash_obj src)"
  by (auto simp: load_pid_energy_param_def Let_def split: if_splits pyobj.splits sum.splits)

lemma load_fresh_reads:
  "load_pid_energy_param hash_obj from_file self (Str path) = Inr (self', reads)
     \<Longrightarrow> energy_param_hash self \<noteq> Some (hash_obj (Str path))
     \<Longrightarrow> reads = [path]"
  by (auto simp: load_pid_energy_param_def Let_def split: if_splits sum.splits)

text \<open>
  C8. Calling \<^verbatim>\<open>load_pid_energy_param\<close> a second time with a source whose
  fingerprint (\<^verbatim>\<open>hash_obj\<close>) equals that of the source loaded by the first call is
  a no-op: whatever reader it is given, it hands it no resource and returns the stage
  unchanged, so the stored mapping and the stored fingerprint stay as they were. When the
  first call really loaded a resource (the stage did not hold its fingerprint yet), that
  call read exactly this one resource, so a counting reader counts one read over the two
  calls.
\<close>

theorem load_pid_energy_param_twice:
  assumes first: "load_pid_energy_param hash_obj from_file self0 src1 = Inr (self1, reads1)"
      and same: "hash_obj src2 = hash_obj src1"
  shows "load_pid_energy_param hash_obj from_file2 self1 src2 = Inr (self1, []) \<and>
         (src1 = Str path \<and> energy_param_hash self0 \<noteq> Some (hash_obj src1)
            \<longrightarrow> reads1 = [path])"
proof -
  have "energy_param_hash self1 = Some (hash_obj src2)"
    using load_sets_hash [OF first] same by simp
  then have "load_pid_energy_param hash_obj from_file2 self1 src2 = Inr (self1, [])"
    by (rule load_cached)
  moreover have "reads1 = [path]"
    if "src1 = Str path" "energy_param_hash self0 \<noteq> Some (hash_obj src1)"
    using load_fresh_reads [of hash_obj from_file self0 path self1 reads1] first that by simp
  ultimately show ?thesis by blast
qed

theorem load_pid_energy_param_twice_witness:
  "load_pid_energy_param (\<lambda>src. 7) example_reader (stage_with_binning []) (Str ''pid.json'')
     = Inr ((stage_with_binning [])\<lparr>energy_param_dict :=
               Some (Dict [(''numu_cc'', Dict [(''trck'', Str ''t''), (''cscd'', Str ''c'')])]),
             energy_param_hash := Some 7\<rparr>, [''pid.json'']) \<and>
   load_pid_energy_param (\<lambda>src. 7) (\<lambda>path. Inl (Raise KeyError ''unread'' []))
     ((stage_with_binning [])\<lparr>energy_param_dict :=
               Some (Dict [(''numu_cc'', Dict [(''trck'', Str ''t''), (''cscd'', Str ''c'')])]),
             energy_param_hash := Some 7\<rparr>) (Str ''pid.json'')
     = Inr ((stage_with_binning [])\<lparr>energy_param_dict :=
               Some (Dict [(''numu_cc'', Dict [(''trck'', Str ''t''), (''cscd'', Str ''c'')])]),
             energy_param_hash := Some 7\<rparr>, []) \<and>
   length ([''pid.json''] @ ([] :: string list)) = 1"
proof -
  have first: "load_pid_energy_param (\<lambda>src. 7) example_reader (stage_with_binning []) (Str ''pid.json'')
     = Inr ((stage_with_binning [])\<lparr>energy_param_dict :=
               Some (Dict [(''numu_cc'', Dict [(''trck'', Str ''t''), (''cscd'', Str ''c'')])]),
             energy_param_hash := Some 7\<rparr>, [''pid.json''])"
    by (simp add: load_pid_energy_param_def example_reader_def stage_with_binning_def)
  have fresh: "energy_param_hash (stage_with_binning []) \<noteq> Some ((\<lambda>src. 7) (Str ''pid.json''))"
    by (simp add: stage_with_binning_def)
  show ?thesis
    using first fresh
      load_pid_energy_param_twice [where ?src2.0 = "Str ''pid.json''"
        and ?from_file2.0 = "\<lambda>path. Inl (Raise KeyError ''unread'' [])"
        and path = "''pid.json''", OF first]
    by simp
qed

subsection \<open>Looking up a flavour group\<close>

lemma py_split_not_Nil: "py_split c s \<noteq> []"
  by (induction s) (auto split: list.splits)

lemma hd_py_split: "hd (py_split c s) = takeWhile (\<lambda>x. x \<noteq> c) s"
  by (induction s) (auto simp: py_split_not_Nil split: list.splits)

lemma length_py_split: "length (py_split c s) = Suc (length (filter (\<lambda>x. x = c) s))"
  by (induction s) (auto simp: py_split_not_Nil split: list.splits)

lemma py_split_single: "c \<notin> set s \<Longrightarrow> py_split c s = [s]"
  by (induction s) auto

lemma last_py_split: "last (py_split c s) = rev (takeWhile (\<lambda>x. x \<noteq> c) (rev s))"
proof (induction s)
  case Nil
  show ?case by simp
next
  case (Cons x xs)
  show ?case
  proof (cases "x = c")
    case True
    then show ?thesis
      using Cons.IH by (simp add: py_split_not_Nil takeWhile_append)
  next
    case False
    show ?thesis
    proof (cases "c \<in> set xs")
      case True
      obtain w ws where r: "py_split c xs = w # ws"
        using py_split_not_Nil [of c xs] by (cases "py_split c xs") auto
      have "ws \<noteq> []"
        using length_py_split [of c xs] True r by (auto simp: filter_empty_conv)
      then have "last (py_split c (x # xs)) = last (py_split c xs)"
        using False r by simp
      then show ?thesis using Cons.IH True by (auto simp: takeWhile_append)
    next
      case notin: False
      then show ?thesis using False by (simp add: py_split_single takeWhile_append)
    qed
  qed
qed

lemma in_keys_iff: "k \<in> set (keys d) \<longleftrightarrow> map_of d k \<noteq> None"
  by (simp add: keys_def map_of_eq_None_iff)

lemma joined_parts:
  assumes "CHR ''+'' \<notin> set X" "CHR ''+'' \<notin> set Y"
  shows "takeWhile (\<lambda>c. c \<noteq> CHR ''+'') (X @ ''+'' @ Y) = X"
    and "rev (takeWhile (\<lambda>c. c \<noteq> CHR ''+'') (rev (X @ ''+'' @ Y))) = Y"
  using assms by (simp_all add: takeWhile_append)

text \<open>
  C4, as the code has it. \<^verbatim>\<open>find_energy_param\<close> returns the entry under the exact
  key when the name is a key of the loaded mapping. Otherwise, when the name contains a
  \<^verbatim>\<open>+\<close>, let \<open>nu\<close> be the part before its first \<^verbatim>\<open>+\<close> and \<open>nubar\<close> the
  part after its last \<^verbatim>\<open>+\<close> (for a name \<^verbatim>\<open>X+Y\<close> with a single
  \<^verbatim>\<open>+\<close> these are \<open>X\<close> and \<open>Y\<close>): if \<open>nubar\<close> with every \<^verbatim>\<open>bar\<close>
  removed is \<open>nu\<close>, the result is the entry under \<open>nu\<close> when \<open>nu\<close> is a key, and a
  \<^verbatim>\<open>ValueError\<close> naming \<open>nu\<close> and the available keys when it is not; if it is
  not \<open>nu\<close>, the result is a \<^verbatim>\<open>ValueError\<close> that names the offending name only.
  A name that is no key and contains no \<^verbatim>\<open>+\<close> gives a \<^verbatim>\<open>ValueError\<close>
  naming the name and the available keys.
\<close>

theorem find_energy_param_spec:
  assumes "energy_param_dict self = Some (Dict d)"
  shows
  "let nu = takeWhile (\<lambda>c. c \<noteq> CHR ''+'') flavstr;
       nubar = rev (takeWhile (\<lambda>c. c \<noteq> CHR ''+'') (rev flavstr))
   in (map_of d flavstr = Some e \<longrightarrow> find_energy_param self flavstr = Inr e) \<and>
      (flavstr \<notin> set (keys d) \<and> CHR ''+'' \<in> set flavstr \<and> py_replace ''bar'' [] nubar = nu
         \<and> map_of d nu = Some e
         \<longrightarrow> find_energy_param self flavstr = Inr e) \<and>
      (flavstr \<notin> set (keys d) \<and> CHR ''+'' \<in> set flavstr \<and> py_replace ''bar'' [] nubar = nu
         \<and> nu \<notin> set (keys d)
         \<longrightarrow> find_energy_param self flavstr
               = Inl (Raise ValueError msg_nu_not_in_keys [S nu, L (keys d)])) \<and>
      (flavstr \<notin> set (keys d) \<and> CHR ''+'' \<in> set flavstr \<and> py_replace ''bar'' [] nubar \<noteq> nu
         \<longrightarrow> find_energy_param self flavstr
               = Inl (Raise ValueError msg_not_joined [S flavstr])) \<and>
      (flavstr \<notin> set (keys d) \<and> CHR ''+'' \<notin> set flavstr
         \<longrightarrow> find_energy_param self flavstr
               = Inl (Raise ValueError msg_not_in_keys_or_comb [S flavstr, L (keys d)])) \<and>
      (\<forall>X Y. flavstr = X @ ''+'' @ Y \<and> CHR ''+'' \<notin> set X \<and> CHR ''+'' \<notin> set Y
         \<longrightarrow> nu = X \<and> nubar = Y)"
  using assms joined_parts
  by (auto simp: find_energy_param_def Let_def hd_py_split last_py_split in_keys_iff
      dict_get_def)



theorem find_energy_param_spec_witness:
  "find_energy_param (stage_with_param_dict [(''nu'', Str ''entry'')]) ''nu'' = Inr (Str ''entry'') \<and>
   find_energy_param (stage_with_param_dict [(''nu'', Str ''entry'')]) ''nu+nubar''
     = Inr (Str ''entry'') \<and> 
   find_energy_param (stage_with_param_dict [(''nu'', Str ''entry'')]) ''nx+nxbar''
     = Inl (Raise ValueError msg_nu_not_in_keys [S ''nx'', L [''nu'']]) \<and>
   find_energy_param (stage_with_param_dict [(''nu'', Str ''entry'')]) ''nu+notnubar''
     = Inl (Raise ValueError msg_not_joined [S ''nu+notnubar'']) \<and>
   find_energy_param (stage_with_param_dict [(''nu'', Str ''entry'')]) ''nux''
     = Inl (Raise ValueError msg_not_in_keys_or_comb [S ''nux'', L [''nu'']])"
proof -
  have d: "energy_param_dict (stage_with_param_dict [(''nu'', Str ''entry'')])
             = Some (Dict [(''nu'', Str ''entry'')])"
    by (simp add: stage_with_param_dict_def)
  have "find_energy_param (stage_with_param_dict [(''nu'', Str ''entry'')]) ''nu''
          = Inr (Str ''entry'')"
    using find_energy_param_spec [OF d, of "''nu''" "Str ''entry''"] by (simp add: Let_def)
  moreover have "find_energy_param (stage_with_param_dict [(''nu'', Str ''entry'')]) ''nu+nubar''
          = Inr (Str ''entry'')"
    using find_energy_param_spec [OF d, of "''nu+nubar''" "Str ''entry''"]
    by (simp add: Let_def keys_def)
  moreover have "find_energy_param (stage_with_param_dict [(''nu'', Str ''entry'')]) ''nx+nxbar''
          = Inl (Raise ValueError msg_nu_not_in_keys [S ''nx'', L [''nu'']])"
    using find_energy_param_spec [OF d, of "''nx+nxbar''" "Str ''entry''"]
    by (simp add: Let_def keys_def)
  moreover have "find_energy_param (stage_with_param_dict [(''nu'', Str ''entry'')]) ''nu+notnubar''
          = Inl (Raise ValueError msg_not_joined [S ''nu+notnubar''])"
    using find_energy_param_spec [OF d, of "''nu+notnubar''" "Str ''entry''"]
    by (simp add: Let_def keys_def)
  moreover have "find_energy_param (stage_with_param_dict [(''nu'', Str ''entry'')]) ''nux''
          = Inl (Raise ValueError msg_not_in_keys_or_comb [S ''nux'', L [''nu'']])"
    using find_energy_param_spec [OF d, of "''nux''" "Str ''entry''"]
    by (simp add: Let_def keys_def)
  ultimately show ?thesis by blast
qed

text \<open>
  The claim as stated fails: for \<^verbatim>\<open>nu+notnubar\<close> the error does not name the
  available keys, and \<^verbatim>\<open>nu+x+nubar\<close>, which is not of the form \<^verbatim>\<open>X+Y\<close>
  with \<^verbatim>\<open>Y\<close> the antiflavour of \<^verbatim>\<open>X\<close>, resolves to the entry of
  \<^verbatim>\<open>nu\<close>.
\<close>

theorem find_energy_param_counterexample:
  "raises ValueError
     (find_energy_param (stage_with_param_dict [(''nu'', Str ''entry'')]) ''nu+notnubar'') \<and>
   \<not> interpolates
     (find_energy_param (stage_with_param_dict [(''nu'', Str ''entry'')]) ''nu+notnubar'')
     (L (keys [(''nu'', Str ''entry'')])) \<and>
   find_energy_param (stage_with_param_dict [(''nu'', Str ''entry'')]) ''nu+x+nubar''
     = Inr (Str ''entry'')"
  by (simp add: find_energy_param_def stage_with_param_dict_def keys_def dict_get_def)

subsection \<open>Arrays\<close>

lemma nth_concat_uniform:
  "\<forall>xs \<in> set xss. length xs = m \<Longrightarrow> i < length xss \<Longrightarrow> j < m
     \<Longrightarrow> concat xss ! (i * m + j) = xss ! i ! j"
proof (induction xss arbitrary: i)
  case Nil
  then show ?case by simp
next
  case (Cons xs xss)
  show ?case
  proof (cases i)
    case 0
    then show ?thesis using Cons.prems by (simp add: nth_append)
  next
    case (Suc k)
    then have "concat (xs # xss) ! (i * m + j) = concat xss ! (k * m + j)"
      using Cons.prems by (simp add: nth_append)
    then show ?thesis using Cons.IH [of k] Cons.prems Suc by simp
  qed
qed

lemma length_concat_uniform:
  "\<forall>xs \<in> set xss. length xs = m \<Longrightarrow> length (concat xss) = length xss * m"
  by (induction xss) auto

lemma length_indices: "length (indices shp) = prod_list shp"
proof (induction shp)
  case Nil
  show ?case by simp
next
  case (Cons n ns)
  have "length (concat (map (\<lambda>i. map ((#) i) (indices ns)) [0..<n])) = n * prod_list ns"
    using length_concat_uniform [of "map (\<lambda>i. map ((#) i) (indices ns)) [0..<n]" "prod_list ns"]
      Cons.IH by auto
  then show ?case by simp
qed

lemma ravel_less: "in_shape shp idx \<Longrightarrow> ravel shp idx < prod_list shp"
proof (induction shp idx rule: in_shape.induct)
  case 1
  show ?case by simp
next
  case (2 n ns i js)
  then have "i < n" and r: "ravel ns js < prod_list ns" by simp_all
  then have "i * prod_list ns + ravel ns js < Suc i * prod_list ns" by simp
  also have "\<dots> \<le> n * prod_list ns" using \<open>i < n\<close> by (simp add: Suc_leI mult_le_mono1 del: mult_Suc)
  finally show ?case by simp
qed simp_all

lemma nth_map_indices:
  "in_shape shp idx \<Longrightarrow> map f (indices shp) ! ravel shp idx = f idx"
proof (induction shp idx arbitrary: f rule: in_shape.induct)
  case 1
  show ?case by simp
next
  case (2 n ns i js)
  then have i: "i < n" and js: "in_shape ns js" by simp_all
  let ?xss = "map (\<lambda>i. map (\<lambda>ks. f (i # ks)) (indices ns)) [0..<n]"
  have eq: "map f (indices (n # ns)) = concat ?xss"
    by (simp add: map_concat comp_def)
  have "concat ?xss ! (i * prod_list ns + ravel ns js) = ?xss ! i ! ravel ns js"
    using i ravel_less [OF js]
    by (intro nth_concat_uniform) (auto simp: length_indices)
  also have "\<dots> = map (\<lambda>ks. f (i # ks)) (indices ns) ! ravel ns js"
    using i by simp
  also have "\<dots> = f (i # js)"
    using "2.IH" [OF js, of "\<lambda>ks. f (i # ks)"] .
  finally show ?case using eq by simp
qed simp_all

lemma item_np_transpose:
  "in_shape (map (\<lambda>k. shape a ! k) axes) idx
     \<Longrightarrow> item (np_transpose a axes) idx
         = item a (map (\<lambda>d. idx ! index_of axes d) [0..<length axes])"
  by (simp add: np_transpose_def item_def nth_map_indices [where f = "\<lambda>j. flat a ! ravel (shape a) (map (\<lambda>d. j ! index_of axes d) [0..<length axes])"])

lemma item_np_T_2d:
  "j < b \<Longrightarrow> i < a
     \<Longrightarrow> item (np_T (NDArray [a, b] xs)) [j, i] = item (NDArray [a, b] xs) [i, j]"
  using item_np_transpose [of "NDArray [a, b] xs" "[1, 0]" "[j, i]"]
  by (simp add: np_T_def index_of_def upt_rec numeral_2_eq_2)

lemma shape_np_T_2d: "shape (np_T (NDArray [a, b] xs)) = [b, a]"
  by (simp add: np_T_def np_transpose_def upt_rec numeral_2_eq_2)

lemma np_reshape_repeat:
  "length vs = ne
     \<Longrightarrow> np_reshape (np_repeat (NDArray shp vs) nc) [ne, nc]
         = Inr (NDArray [ne, nc] (concat (map (replicate nc) vs)))"
  by (simp add: np_reshape_def np_repeat_def length_concat_uniform [where m = nc])

lemma item_repeat:
  "i < length vs \<Longrightarrow> j < nc
     \<Longrightarrow> item (NDArray [length vs, nc] (concat (map (replicate nc) vs))) [i, j] = vs ! i"
  using nth_concat_uniform [of "map (replicate nc) vs" nc i j]
  by (simp add: item_def)

subsection \<open>The curve in the shape of the binning\<close>

text \<open>
  Lines 321-331 on a curve with one value for each energy bin centre: with an energy-only
  binning the result is the curve; with an energy and zenith binning it is
  two-dimensional, in the declared order of the axes, and constant along the zenith axis.
\<close>

lemma make_xform_array_shape:
  assumes vec: "shape pid1d = [length (wc edim)]" "length (flat pid1d) = length (wc edim)"
      and e: "get_dim (input_binning self) ''reco_energy'' = Inr edim"
  shows
    "(names (input_binning self) = [''reco_energy'']
        \<longrightarrow> make_xform_array wc self (wc edim) pid1d = Inr pid1d
            \<and> shape pid1d = binning_shape wc (input_binning self)) \<and>
     (names (input_binning self) = [''reco_energy'', ''reco_coszen'']
        \<longrightarrow> (\<exists>xa. make_xform_array wc self (wc edim) pid1d = Inr xa
              \<and> shape xa = binning_shape wc (input_binning self)
              \<and> (\<forall>i < length (wc edim). \<forall>j < length (wc (input_binning self ! 1)).
                    item xa [i, j] = item pid1d [i]))) \<and>
     (names (input_binning self) = [''reco_coszen'', ''reco_energy'']
        \<longrightarrow> (\<exists>xa. make_xform_array wc self (wc edim) pid1d = Inr xa
              \<and> shape xa = binning_shape wc (input_binning self)
              \<and> (\<forall>i < length (wc edim). \<forall>j < length (wc (input_binning self ! 0)).
                    item xa [j, i] = item pid1d [i])))"
proof -
  obtain vs where p: "pid1d = NDArray [length vs] vs" and n: "length vs = length (wc edim)"
    using vec by (cases pid1d) auto
  have item1: "item pid1d [i] = vs ! i" for i
    by (simp add: p item_def)
  have c1: "make_xform_array wc self (wc edim) pid1d = Inr pid1d
            \<and> shape pid1d = binning_shape wc (input_binning self)"
    if "names (input_binning self) = [''reco_energy'']"
  proof -
    from that obtain d0 where b: "input_binning self = [d0]" and "name d0 = ''reco_energy''"
      by (auto simp: names_def)
    then have "edim = d0" using e by (simp add: get_dim_def)
    then show ?thesis using b that vec by (simp add: make_xform_array_def binning_shape_def)
  qed
  have c2: "\<exists>xa. make_xform_array wc self (wc edim) pid1d = Inr xa
              \<and> shape xa = binning_shape wc (input_binning self)
              \<and> (\<forall>i < length (wc edim). \<forall>j < length (wc (input_binning self ! 1)).
                    item xa [i, j] = item pid1d [i])"
    if "names (input_binning self) = [''reco_energy'', ''reco_coszen'']"
  proof -
    from that obtain d0 d1 where b: "input_binning self = [d0, d1]"
      and d0: "name d0 = ''reco_energy''" and d1: "name d1 = ''reco_coszen''"
      by (auto simp: names_def)
    have ed: "edim = d0" using e b d0 by (simp add: get_dim_def)
    have cz: "get_dim (input_binning self) ''reco_coszen'' = Inr d1"
      using b d0 d1 by (simp add: get_dim_def)
    have "make_xform_array wc self (wc edim) pid1d
            = Inr (NDArray [length vs, length (wc d1)] (concat (map (replicate (length (wc d1))) vs)))"
      using that cz n np_reshape_repeat [of vs "length (wc edim)" "[length vs]" "length (wc d1)"]
      by (simp add: make_xform_array_def p)
    then show ?thesis
      using b ed n item_repeat [of _ vs _ "length (wc d1)"]
      by (simp add: binning_shape_def item1)
  qed
  have c3: "\<exists>xa. make_xform_array wc self (wc edim) pid1d = Inr xa
              \<and> shape xa = binning_shape wc (input_binning self)
              \<and> (\<forall>i < length (wc edim). \<forall>j < length (wc (input_binning self ! 0)).
                    item xa [j, i] = item pid1d [i])"
    if "names (input_binning self) = [''reco_coszen'', ''reco_energy'']"
  proof -
    from that obtain d0 d1 where b: "input_binning self = [d0, d1]"
      and d0: "name d0 = ''reco_coszen''" and d1: "name d1 = ''reco_energy''"
      by (auto simp: names_def)
    have ed: "edim = d1" using e b d0 d1 by (simp add: get_dim_def)
    have cz: "get_dim (input_binning self) ''reco_coszen'' = Inr d0"
      using b d0 by (simp add: get_dim_def)
    let ?a = "NDArray [length vs, length (wc d0)] (concat (map (replicate (length (wc d0))) vs))"
    have "make_xform_array wc self (wc edim) pid1d = Inr (np_T ?a)"
      using that cz n np_reshape_repeat [of vs "length (wc edim)" "[length vs]" "length (wc d0)"]
      by (simp add: make_xform_array_def p)
    moreover have "shape (np_T ?a) = binning_shape wc (input_binning self)"
      using b ed n by (simp add: shape_np_T_2d binning_shape_def)
    moreover have "item (np_T ?a) [j, i] = item pid1d [i]"
      if "i < length (wc edim)" "j < length (wc (input_binning self ! 0))" for i j
      using that b n item_np_T_2d [of j "length (wc d0)" i "length vs"]
        item_repeat [of i vs j "length (wc d0)"]
      by (simp add: item1)
    ultimately show ?thesis by blast
  qed
  show ?thesis using c1 c2 c3 by blast
qed

lemmas example_defs = example_stage_def example_dim_def example_centers_def names_def
  get_dim_def binning_shape_def

lemmas run_defs = compute_nominal_transforms_def load_pid_energy_param_def
  find_energy_param_def group_transforms_def channel_transforms_def channel_array_def
  make_xform_array_def
  input_transforms_def group_inputs_def dict_get_def keys_def output_channels_def
  suffix_channel_def norm_alias_def numu_cc_group_def example_eval_def example_hash_def
  np_reshape_def np_repeat_def

text \<open>
  The claim as stated fails for an expression whose function does not return one value
  for each bin centre: \<^verbatim>\<open>lambda E: 0.9\<close> returns a float, so with an energy and
  zenith binning the reshaping raises, and with an energy-only binning the weight that
  the transforms of the channel carry is the float, which has no axis.
\<close>

theorem curve_shape_counterexample:
  "compute_nominal_transforms example_centers example_hash example_reader example_eval
       (example_stage [''reco_energy'', ''reco_coszen''] const_param)
     = Inl (Raise ValueError msg_reshape []) \<and>
   make_xform_array example_centers (example_stage [''reco_energy''] const_param)
       [1, 10, 100] (NDArray [] [9 / 10])
     = Inr (NDArray [] [9 / 10]) \<and>
   shape (NDArray [] [9 / 10])
     \<noteq> binning_shape example_centers (input_binning (example_stage [''reco_energy''] const_param)) \<and>
   channel_transforms example_centers example_eval (example_stage [''reco_energy''] const_param)
       [1, 10, 100] numu_cc_group
       [(''trck'', Str ''lambda E: 0.9''), (''cscd'', Str ''lambda E: 0.1'')] ''trck''
     = Inr [example_xform ''numu_cc'' ''trck'' (NDArray [] [9 / 10])]"
  by (simp add: run_defs example_defs const_param_def example_xform_def)

subsection \<open>The end-to-end scenario\<close>



text \<open>
  C1, as the code has it. For a transform group named \<^verbatim>\<open>numu_cc\<close> whose entry
  maps \<^verbatim>\<open>trck\<close> to an expression whose function returns the array
  \<open>[0.9, 0.9, 0.9]\<close> when called with the array of the three energy bin centres
  \<open>[1, 10, 100]\<close>, and \<^verbatim>\<open>cscd\<close> to one that returns \<open>[0.1, 0.1, 0.1]\<close>, over an
  energy-only input binning and with \<^verbatim>\<open>numu_cc\<close> among the input names,
  \<^verbatim>\<open>_compute_nominal_transforms\<close> returns a transform set that contains a
  transform from \<^verbatim>\<open>numu_cc\<close> to \<^verbatim>\<open>numu_cc_trck\<close> with the array
  \<open>[0.9, 0.9, 0.9]\<close> and one from \<^verbatim>\<open>numu_cc\<close> to \<^verbatim>\<open>numu_cc_cscd\<close> with
  the array \<open>[0.1, 0.1, 0.1]\<close>.
\<close>

theorem numu_cc_scenario:
  assumes binning: "names (input_binning self) = [''reco_energy'']"
      and centers: "wc (hd (input_binning self)) = [1, 10, 100]"
      and groups: "transform_groups self = [g]" "str g = ''numu_cc''" "contains g ''numu_cc''"
      and inputs: "''numu_cc'' \<in> set (input_names self)"
      and paramfile: "pid_energy_paramfile self = Dict d"
        "energy_param_hash self \<noteq> Some (hash_obj (Dict d))"
      and entry: "map_of d ''numu_cc''
                    = Some (Dict [(''trck'', Str trck_expr), (''cscd'', Str cscd_expr)])"
      and trck: "ev (norm_alias trck_expr) = Inr f_trck"
        "f_trck [1, 10, 100] = Inr (NDArray [3] [9 / 10, 9 / 10, 9 / 10])"
      and cscd: "ev (norm_alias cscd_expr) = Inr f_cscd"
        "f_cscd [1, 10, 100] = Inr (NDArray [3] [1 / 10, 1 / 10, 1 / 10])"
  shows "\<exists>ts self' reads.
           compute_nominal_transforms wc hash_obj from_file ev self
             = Inr (TransformSet ts, self', reads) \<and>
           \<lparr>xf_input_names = ''numu_cc'', xf_output_name = ''numu_cc_trck'',
            xf_input_binning = input_binning self, xf_output_binning = input_binning self,
            xform_array = NDArray [3] [9 / 10, 9 / 10, 9 / 10]\<rparr> \<in> set ts \<and>
           \<lparr>xf_input_names = ''numu_cc'', xf_output_name = ''numu_cc_cscd'',
            xf_input_binning = input_binning self, xf_output_binning = input_binning self,
            xform_array = NDArray [3] [1 / 10, 1 / 10, 1 / 10]\<rparr> \<in> set ts"
proof -
  from binning obtain d0 where b: "input_binning self = [d0]" "name d0 = ''reco_energy''"
    by (auto simp: names_def)
  define self' where
    "self' = self\<lparr>energy_param_dict := Some (Dict d),
                  energy_param_hash := Some (hash_obj (Dict d))\<rparr>"
  let ?ep = "[(''trck'', Str trck_expr), (''cscd'', Str cscd_expr)]"
  have load: "load_pid_energy_param hash_obj from_file self (pid_energy_paramfile self)
                = Inr (self', [])"
    using paramfile by (simp add: load_pid_energy_param_def self'_def)
  have find: "find_energy_param self' ''numu_cc'' = Inr (Dict ?ep)"
    using entry by (simp add: find_energy_param_def self'_def in_keys_iff dict_get_def)
  have nocz: "''reco_coszen'' \<notin> set (names (input_binning self'))"
    using binning by (simp add: self'_def)
  have ch1: "channel_transforms wc ev self' [1, 10, 100] g ?ep ''trck''
               = Inr (input_transforms self' g ''trck'' (NDArray [3] [9 / 10, 9 / 10, 9 / 10]))"
    using trck nocz by (simp add: channel_transforms_def channel_array_def dict_get_def make_xform_array_def)
  have ch2: "channel_transforms wc ev self' [1, 10, 100] g ?ep ''cscd''
               = Inr (input_transforms self' g ''cscd'' (NDArray [3] [1 / 10, 1 / 10, 1 / 10]))"
    using cscd nocz by (simp add: channel_transforms_def channel_array_def dict_get_def make_xform_array_def)
  have grp: "group_transforms wc ev self' [1, 10, 100] g
               = Inr (input_transforms self' g ''trck'' (NDArray [3] [9 / 10, 9 / 10, 9 / 10])
                    @ input_transforms self' g ''cscd'' (NDArray [3] [1 / 10, 1 / 10, 1 / 10]))"
    using find groups ch1 ch2 by (simp add: group_transforms_def output_channels_def keys_def)
  have run: "compute_nominal_transforms wc hash_obj from_file ev self
               = Inr (TransformSet
                    (input_transforms self' g ''trck'' (NDArray [3] [9 / 10, 9 / 10, 9 / 10])
                     @ input_transforms self' g ''cscd'' (NDArray [3] [1 / 10, 1 / 10, 1 / 10])),
                    self', [])"
    using b centers load grp groups
    by (simp add: compute_nominal_transforms_def get_dim_def self'_def)
  have mem: "''numu_cc'' \<in> set (group_inputs self' g)"
    using groups inputs by (simp add: group_inputs_def self'_def)
  have "\<lparr>xf_input_names = ''numu_cc'', xf_output_name = ''numu_cc_trck'',
            xf_input_binning = input_binning self, xf_output_binning = input_binning self,
            xform_array = xa\<rparr> \<in> set (input_transforms self' g ''trck'' xa)" for xa
    using mem by (force simp: input_transforms_def suffix_channel_def self'_def)
  moreover have "\<lparr>xf_input_names = ''numu_cc'', xf_output_name = ''numu_cc_cscd'',
            xf_input_binning = input_binning self, xf_output_binning = input_binning self,
            xform_array = xa\<rparr> \<in> set (input_transforms self' g ''cscd'' xa)" for xa
    using mem by (force simp: input_transforms_def suffix_channel_def self'_def)
  ultimately show ?thesis using run by auto
qed


theorem numu_cc_scenario_witness:
  "\<exists>ts self' reads.
     compute_nominal_transforms example_centers example_hash example_reader example_eval
         ((example_stage [''reco_energy''] vector_param)\<lparr>energy_param_hash := Some 3\<rparr>)
       = Inr (TransformSet ts, self', reads) \<and>
     \<lparr>xf_input_names = ''numu_cc'', xf_output_name = ''numu_cc_trck'',
      xf_input_binning = [example_dim ''reco_energy''],
      xf_output_binning = [example_dim ''reco_energy''],
      xform_array = NDArray [3] [9 / 10, 9 / 10, 9 / 10]\<rparr> \<in> set ts \<and>
     \<lparr>xf_input_names = ''numu_cc'', xf_output_name = ''numu_cc_cscd'',
      xf_input_binning = [example_dim ''reco_energy''],
      xf_output_binning = [example_dim ''reco_energy''],
      xform_array = NDArray [3] [1 / 10, 1 / 10, 1 / 10]\<rparr> \<in> set ts"
proof -
  let ?self = "(example_stage [''reco_energy''] vector_param)\<lparr>energy_param_hash := Some 3\<rparr>"
  have b: "input_binning ?self = [example_dim ''reco_energy'']"
    by (simp add: example_stage_def)
  have binning: "names (input_binning ?self) = [''reco_energy'']"
    by (simp add: example_stage_def example_dim_def names_def)
  have centers: "example_centers (hd (input_binning ?self)) = [1, 10, 100]"
    by (simp add: example_stage_def example_dim_def example_centers_def)
  have groups: "transform_groups ?self = [numu_cc_group]" "str numu_cc_group = ''numu_cc''"
    "contains numu_cc_group ''numu_cc''"
    by (simp_all add: example_stage_def numu_cc_group_def)
  have inputs: "''numu_cc'' \<in> set (input_names ?self)"
    by (simp add: example_stage_def)
  have paramfile: "pid_energy_paramfile ?self = Dict vector_param"
    "energy_param_hash ?self \<noteq> Some (example_hash (Dict vector_param))"
    by (simp_all add: example_stage_def example_hash_def)
  have entry: "map_of vector_param ''numu_cc''
      = Some (Dict [(''trck'', Str ''lambda E: 0.9 + 0*E''),
                    (''cscd'', Str ''lambda E: 0.1 + 0*E'')])"
    by (simp add: vector_param_def)
  have trck: "example_eval (norm_alias ''lambda E: 0.9 + 0*E'')
                = Inr (\<lambda>E. Inr (NDArray [length E] (map (\<lambda>x. 9 / 10) E)))"
    "(\<lambda>E. Inr (NDArray [length E] (map (\<lambda>x. 9 / 10) E))) [1, 10, 100 :: real]
       = (Inr (NDArray [3] [9 / 10, 9 / 10, 9 / 10]) :: error + ndarray)"
    by (simp_all add: example_eval_def norm_alias_def)
  have cscd: "example_eval (norm_alias ''lambda E: 0.1 + 0*E'')
                = Inr (\<lambda>E. Inr (NDArray [length E] (map (\<lambda>x. 1 / 10) E)))"
    "(\<lambda>E. Inr (NDArray [length E] (map (\<lambda>x. 1 / 10) E))) [1, 10, 100 :: real]
       = (Inr (NDArray [3] [1 / 10, 1 / 10, 1 / 10]) :: error + ndarray)"
    by (simp_all add: example_eval_def norm_alias_def)
  show ?thesis
    using numu_cc_scenario [where self = ?self and wc = example_centers
        and g = numu_cc_group and d = vector_param and hash_obj = example_hash
        and ev = example_eval and from_file = example_reader
        and trck_expr = "''lambda E: 0.9 + 0*E''" and cscd_expr = "''lambda E: 0.1 + 0*E''"
        and f_trck = "\<lambda>E. Inr (NDArray [length E] (map (\<lambda>x. 9 / 10) E))"
        and f_cscd = "\<lambda>E. Inr (NDArray [length E] (map (\<lambda>x. 1 / 10) E))",
        OF binning centers groups inputs paramfile entry trck cscd]
    unfolding b .
qed

text \<open>
  The claim as stated fails for the constant function itself: \<^verbatim>\<open>lambda E: 0.9\<close>
  returns the float 0.9 whatever it is called with, and the transforms carry that float,
  not an array of three values.
\<close>

theorem numu_cc_scenario_counterexample:
  "compute_nominal_transforms example_centers example_hash example_reader example_eval
       (example_stage [''reco_energy''] const_param)
     = Inr (TransformSet
         [\<lparr>xf_input_names = ''numu_cc'', xf_output_name = ''numu_cc_trck'',
           xf_input_binning = [example_dim ''reco_energy''],
           xf_output_binning = [example_dim ''reco_energy''],
           xform_array = NDArray [] [9 / 10]\<rparr>,
          \<lparr>xf_input_names = ''numu_cc'', xf_output_name = ''numu_cc_cscd'',
           xf_input_binning = [example_dim ''reco_energy''],
           xf_output_binning = [example_dim ''reco_energy''],
           xform_array = NDArray [] [1 / 10]\<rparr>],
         (example_stage [''reco_energy''] const_param)
           \<lparr>energy_param_dict := Some (Dict const_param), energy_param_hash := Some 7\<rparr>,
         [])"
  by (simp add: run_defs example_stage_def example_centers_def names_def get_dim_def
      const_param_def example_dim_def)

subsection \<open>The check of the channel keys\<close>

lemma group_transforms_keys_check:
  assumes "find_energy_param self (str g) = Inr (Dict ep)"
  shows "group_transforms wc ev self ecen g
           = (if keys ep = [''trck'', ''cscd'']
              then channels_loop wc ev self ecen g ep [''trck'', ''cscd'']
              else Inl (Raise ValueError msg_channels [L [''trck'', ''cscd''], L (keys ep)]))"
  using assms by (auto simp: group_transforms_def output_channels_def)

text \<open>
  C5, at the failing input. The entry of \<^verbatim>\<open>numu_cc\<close> holds exactly the two
  recognised channels, stored with \<^verbatim>\<open>cscd\<close> first. Line 296 compares the list
  \<^verbatim>\<open>['trck', 'cscd']\<close> with the list \<^verbatim>\<open>energy_param.keys()\<close>, so the
  validation does not pass: the call raises the \<^verbatim>\<open>ValueError\<close> of line 297.
\<close>

theorem channel_keys_order_sensitive:
  "set (keys [(''cscd'', Str ''lambda E: 0.1 + 0*E''), (''trck'', Str ''lambda E: 0.9 + 0*E'')])
     = set output_channels \<and>
   compute_nominal_transforms example_centers example_hash example_reader example_eval
       (example_stage [''reco_energy''] swapped_param)
     = Inl (Raise ValueError msg_channels [L [''trck'', ''cscd''], L [''cscd'', ''trck'']])"
  by (simp add: run_defs example_stage_def example_centers_def names_def get_dim_def
      swapped_param_def example_dim_def insert_commute)

subsection \<open>Recombining the outputs\<close>

lemmas outputs_defs = get_outputs_def new_map_def mapset_get_def np_array_def rollaxis_def
  np_transpose_def item_def index_of_def example_super_def example_outputs_def binning_add_def
  dummy_pid_def

lemmas stage_defs = example_stage_def names_def example_dim_def upt_rec numeral_2_eq_2
  numeral_3_eq_3

lemma new_map_fields:
  "new_map outputs ob n = Inr m \<Longrightarrow> binning m = ob \<and> map_name m = n"
  by (auto simp: new_map_def split: sum.splits)

lemma new_maps_loop_fields:
  "new_maps_loop outputs ob ns = Inr ms
     \<Longrightarrow> (\<forall>m \<in> set ms. binning m = ob) \<and> map map_name ms = ns"
proof (induction ns arbitrary: ms)
  case Nil
  then show ?case by simp
next
  case (Cons n ns)
  then obtain m ms' where "new_map outputs ob n = Inr m"
    "new_maps_loop outputs ob ns = Inr ms'" "ms = m # ms'"
    by (auto split: sum.splits)
  then show ?case using Cons.IH [of ms'] new_map_fields [of outputs ob n m] by auto
qed

text \<open>
  C9. When \<^verbatim>\<open>get_outputs\<close> returns, the output binning of the stage is the
  requested output binning with the synthetic axis \<^verbatim>\<open>pid\<close> appended if the
  requested binning has no axis of that name, and the requested binning itself if it has
  one; every recombined map is built against that binning. The synthetic axis has the
  three bin edges 0, 1, 2, that is two bins.
\<close>

theorem get_outputs_binning:
  assumes "get_outputs super_get_outputs self inputs = Inr (new_outputs, self')"
  shows "(''pid'' \<notin> set (names (output_binning self))
            \<longrightarrow> output_binning self' = output_binning self @ [dummy_pid]) \<and>
         (''pid'' \<in> set (names (output_binning self))
            \<longrightarrow> output_binning self' = output_binning self) \<and>
         (\<forall>m \<in> set (maps new_outputs). binning m = output_binning self') \<and>
         name dummy_pid = ''pid'' \<and> bin_edges dummy_pid = [0, 1, 2]"
proof -
  define ob where
    "ob = (if ''pid'' \<notin> set (names (output_binning self))
           then output_binning self @ [dummy_pid] else output_binning self)"
  define self1 where "self1 = self\<lparr>output_binning := input_binning self\<rparr>"
  have step: "get_outputs super_get_outputs self inputs
          = (case super_get_outputs self1 inputs of
               Inl e \<Rightarrow> Inl e
             | Inr outputs \<Rightarrow>
                 (case new_maps_loop outputs ob (output_names self) of
                    Inl e \<Rightarrow> Inl e
                  | Inr new_maps \<Rightarrow>
                      Inr (\<lparr>maps = new_maps, ms_name = ms_name outputs,
                            ms_tex = ms_tex outputs\<rparr>, self1\<lparr>output_binning := ob\<rparr>)))"
    by (simp add: get_outputs_def Let_def binning_add_def ob_def self1_def
        split: sum.splits)
  from assms obtain outputs where "super_get_outputs self1 inputs = Inr outputs"
    unfolding step by (cases "super_get_outputs self1 inputs") auto
  moreover from this assms obtain new_maps where
    loop: "new_maps_loop outputs ob (output_names self) = Inr new_maps"
    unfolding step by (cases "new_maps_loop outputs ob (output_names self)") auto
  ultimately have res: "maps new_outputs = new_maps" "output_binning self' = ob"
    using assms unfolding step by auto
  show ?thesis
    using new_maps_loop_fields [OF loop] res by (simp add: dummy_pid_def ob_def)
qed

theorem get_outputs_binning_witness:
  "get_outputs (example_super (NDArray [1, 2] [1, 2]) (NDArray [1, 2] [3, 4]))
       (example_stage [''reco_energy'', ''reco_coszen''] vector_param) ()
     = Inr (\<lparr>maps = [\<lparr>map_name = ''numu_cc'', hist = NDArray [1, 2, 2] [1, 3, 2, 4],
                       binning = map example_dim [''reco_energy'', ''reco_coszen'']
                                 @ [dummy_pid]\<rparr>],
              ms_name = ''pid'', ms_tex = ''pid''\<rparr>,
            (example_stage [''reco_energy'', ''reco_coszen''] vector_param)
              \<lparr>output_binning := map example_dim [''reco_energy'', ''reco_coszen'']
                                  @ [dummy_pid]\<rparr>) \<and>
   get_outputs (example_super (NDArray [1, 2] [1, 2]) (NDArray [1, 2] [3, 4]))
       ((example_stage [''reco_energy'', ''reco_coszen''] vector_param)
          \<lparr>output_binning := map example_dim [''reco_energy'', ''reco_coszen'', ''pid'']\<rparr>) ()
     = Inr (\<lparr>maps = [\<lparr>map_name = ''numu_cc'', hist = NDArray [1, 2, 2] [1, 3, 2, 4],
                       binning = map example_dim [''reco_energy'', ''reco_coszen'', ''pid'']\<rparr>],
              ms_name = ''pid'', ms_tex = ''pid''\<rparr>,
            (example_stage [''reco_energy'', ''reco_coszen''] vector_param)
              \<lparr>output_binning := map example_dim [''reco_energy'', ''reco_coszen'', ''pid'']\<rparr>) \<and>
   length (bin_edges dummy_pid) = 3"
proof -
  let ?s1 = "example_stage [''reco_energy'', ''reco_coszen''] vector_param"
  let ?s2 = "?s1\<lparr>output_binning := map example_dim [''reco_energy'', ''reco_coszen'', ''pid'']\<rparr>"
  let ?sup = "example_super (NDArray [1, 2] [1, 2]) (NDArray [1, 2] [3, 4])"
  let ?h = "NDArray [1, 2, 2] [1, 3, 2, 4]"
  let ?ob1 = "map example_dim [''reco_energy'', ''reco_coszen''] @ [dummy_pid]"
  let ?ob2 = "map example_dim [''reco_energy'', ''reco_coszen'', ''pid'']"
  have r1: "get_outputs ?sup ?s1 ()
      = Inr (\<lparr>maps = [\<lparr>map_name = ''numu_cc'', hist = ?h, binning = ?ob1\<rparr>],
               ms_name = ''pid'', ms_tex = ''pid''\<rparr>, ?s1\<lparr>output_binning := ?ob1\<rparr>)"
    by (simp add: outputs_defs stage_defs Let_def)
  have r2: "get_outputs ?sup ?s2 ()
      = Inr (\<lparr>maps = [\<lparr>map_name = ''numu_cc'', hist = ?h, binning = ?ob2\<rparr>],
               ms_name = ''pid'', ms_tex = ''pid''\<rparr>, ?s2)"
    by (simp add: outputs_defs stage_defs Let_def)
  have "length (bin_edges dummy_pid) = 3"
    using get_outputs_binning [OF r1] get_outputs_binning [OF r2] by simp
  then show ?thesis
    using r1 r2 by simp
qed

text \<open>
  For histograms with exactly two axes, the classification axis of the recombined
  histogram is the last one, with the cascade histogram at index 0 and the track
  histogram at index 1.
\<close>

lemma rollaxis_stacked_2d:
  "rollaxis (NDArray [2, a, b] xs) 0 3 = Inr (np_transpose (NDArray [2, a, b] xs) [1, 2, 0])"
  by (simp add: rollaxis_def upt_rec numeral_3_eq_3 numeral_2_eq_2)

lemma new_map_2d:
  assumes c: "mapset_get outputs (n @ ''_cscd'') = Inr cscd"
      and t: "mapset_get outputs (n @ ''_trck'') = Inr trck"
      and sc: "shape (hist cscd) = [a, b]" "length (flat (hist cscd)) = a * b"
      and st: "shape (hist trck) = [a, b]" "length (flat (hist trck)) = a * b"
  shows "\<exists>m. new_map outputs ob n = Inr m \<and> shape (hist m) = [a, b, 2] \<and>
           (\<forall>i<a. \<forall>j<b. item (hist m) [i, j, 0] = item (hist cscd) [i, j] \<and>
                         item (hist m) [i, j, 1] = item (hist trck) [i, j])"
proof -
  let ?h = "NDArray [2, a, b] (flat (hist cscd) @ flat (hist trck))"
  let ?m = "\<lparr>map_name = n, hist = np_transpose ?h [1, 2, 0], binning = ob\<rparr>"
  have na: "np_array [hist cscd, hist trck] = Inr ?h"
    using sc st by (simp add: np_array_def)
  have nm: "new_map outputs ob n = Inr ?m"
    using c t by (simp add: new_map_def na rollaxis_stacked_2d)
  have shp: "shape (hist ?m) = [a, b, 2]"
    by (simp add: np_transpose_def)
  have it: "item (hist ?m) [i, j, k] = item ?h [k, i, j]" if "i < a" "j < b" "k < 2" for i j k
    using that item_np_transpose [of ?h "[1, 2, 0]" "[i, j, k]"]
    by (simp add: index_of_def upt_rec numeral_3_eq_3)
  have lt: "i * b + j < a * b" if "i < a" "j < b" for i j
  proof -
    have "i * b + j < Suc i * b" using that by simp
    also have "\<dots> \<le> a * b" using that by (simp add: Suc_leI mult_le_mono1 del: mult_Suc)
    finally show ?thesis .
  qed
  have "item (hist ?m) [i, j, 0] = item (hist cscd) [i, j] \<and>
        item (hist ?m) [i, j, 1] = item (hist trck) [i, j]" if "i < a" "j < b" for i j
    using that it [of i j 0] it [of i j 1] lt [OF that] sc st
    by (simp add: item_def nth_append)
  then show ?thesis using nm shp by blast
qed

text \<open>
  C3, at the failing input. With an energy-only binning the two histograms of a flavour
  have one axis and their stack has two, so \<^verbatim>\<open>np.rollaxis(hist, 0, 3)\<close> is out
  of range: \<^verbatim>\<open>get_outputs\<close> raises instead of returning a histogram with the
  classification axis last.
\<close>

theorem get_outputs_energy_only:
  "get_outputs (example_super (NDArray [3] [1, 2, 3]) (NDArray [3] [4, 5, 6]))
       (example_stage [''reco_energy''] vector_param) ()
     = Inl (Raise ValueError msg_rollaxis [S ''start''])"
  by (simp add: outputs_defs example_stage_def names_def example_dim_def)

subsection \<open>Inputs, groups and channels\<close>

lemma find_energy_param_input_names:
  "find_energy_param (self\<lparr>input_names := ns\<rparr>) s = find_energy_param self s"
  by (simp add: find_energy_param_def)

lemma make_xform_array_input_names:
  "make_xform_array wc (self\<lparr>input_names := ns\<rparr>) ecen pid1d
     = make_xform_array wc self ecen pid1d"
  by (simp add: make_xform_array_def cong: sum.case_cong list.case_cong)

lemma channel_array_input_names:
  "channel_array wc ev (self\<lparr>input_names := ns\<rparr>) ecen ep sig
     = channel_array wc ev self ecen ep sig"
  by (simp add: channel_array_def make_xform_array_input_names
      cong: sum.case_cong pyobj.case_cong)

lemma group_transforms_unfold:
  "group_transforms wc ev self ecen g =
     (case find_energy_param self (str g) of
        Inl e \<Rightarrow> Inl e
      | Inr (Dict ep) \<Rightarrow>
          if keys ep \<noteq> [''trck'', ''cscd'']
          then Inl (Raise ValueError msg_channels [L [''trck'', ''cscd''], L (keys ep)])
          else (case channel_array wc ev self ecen ep ''trck'' of
                  Inl e \<Rightarrow> Inl e
                | Inr a \<Rightarrow>
                    (case channel_array wc ev self ecen ep ''cscd'' of
                       Inl e \<Rightarrow> Inl e
                     | Inr b \<Rightarrow> Inr (input_transforms self g ''trck'' a
                                     @ input_transforms self g ''cscd'' b)))
      | Inr other \<Rightarrow> Inl (Raise TypeError msg_not_dict []))"
  by (auto simp: group_transforms_def output_channels_def channel_transforms_def
      split: sum.splits pyobj.splits)

lemma group_transforms_uniform:
  "(\<exists>e. \<forall>ns. group_transforms wc ev (self\<lparr>input_names := ns\<rparr>) ecen g = Inl e) \<or>
   (\<exists>a b. \<forall>ns. group_transforms wc ev (self\<lparr>input_names := ns\<rparr>) ecen g
            = Inr (input_transforms (self\<lparr>input_names := ns\<rparr>) g ''trck'' a
                 @ input_transforms (self\<lparr>input_names := ns\<rparr>) g ''cscd'' b))"
proof (cases "find_energy_param self (str g)")
  case (Inl e)
  then show ?thesis
    by (simp add: group_transforms_unfold find_energy_param_input_names)
next
  case (Inr v)
  show ?thesis
  proof (cases v)
    case (Dict ep)
    show ?thesis
    proof (cases "keys ep = [''trck'', ''cscd'']")
      case True
      show ?thesis
      proof (cases "channel_array wc ev self ecen ep ''trck''")
        case Inl
        then show ?thesis
          using Inr Dict True
          by (simp add: group_transforms_unfold find_energy_param_input_names
              channel_array_input_names)
      next
        case a: (Inr a)
        show ?thesis
        proof (cases "channel_array wc ev self ecen ep ''cscd''")
          case Inl
          then show ?thesis
            using Inr Dict True a
            by (simp add: group_transforms_unfold find_energy_param_input_names
                channel_array_input_names)
        next
          case b: (Inr b)
          have "\<forall>ns. group_transforms wc ev (self\<lparr>input_names := ns\<rparr>) ecen g
            = Inr (input_transforms (self\<lparr>input_names := ns\<rparr>) g ''trck'' a
                 @ input_transforms (self\<lparr>input_names := ns\<rparr>) g ''cscd'' b)"
            using Inr Dict True a b
            by (simp add: group_transforms_unfold find_energy_param_input_names
                channel_array_input_names)
          then show ?thesis by blast
        qed
      qed
    next
      case False
      then show ?thesis
        using Inr Dict
        by (simp add: group_transforms_unfold find_energy_param_input_names)
    qed
  qed (use Inr in \<open>simp_all add: group_transforms_unfold find_energy_param_input_names\<close>)
qed

lemma groups_loop_uniform:
  "(\<exists>e. \<forall>ns. groups_loop wc ev (self\<lparr>input_names := ns\<rparr>) ecen gs = Inl e) \<or>
   (\<exists>arrs. length arrs = length gs \<and>
      (\<forall>ns. groups_loop wc ev (self\<lparr>input_names := ns\<rparr>) ecen gs
         = Inr (concat (map (\<lambda>(g, a, b).
                   input_transforms (self\<lparr>input_names := ns\<rparr>) g ''trck'' a
                   @ input_transforms (self\<lparr>input_names := ns\<rparr>) g ''cscd'' b)
                 (zip gs arrs)))))"
proof (induction gs)
  case Nil
  show ?case by simp
next
  case (Cons g gs)
  consider (err) e where "\<forall>ns. group_transforms wc ev (self\<lparr>input_names := ns\<rparr>) ecen g = Inl e"
    | (ok) a b where "\<forall>ns. group_transforms wc ev (self\<lparr>input_names := ns\<rparr>) ecen g
            = Inr (input_transforms (self\<lparr>input_names := ns\<rparr>) g ''trck'' a
                 @ input_transforms (self\<lparr>input_names := ns\<rparr>) g ''cscd'' b)"
    using group_transforms_uniform [of wc ev self ecen g] by blast
  then show ?case
  proof cases
    case err
    then show ?thesis by auto
  next
    case ok
    from Cons.IH show ?thesis
    proof
      assume "\<exists>e. \<forall>ns. groups_loop wc ev (self\<lparr>input_names := ns\<rparr>) ecen gs = Inl e"
      then show ?thesis using ok by auto
    next
      assume "\<exists>arrs. length arrs = length gs \<and>
        (\<forall>ns. groups_loop wc ev (self\<lparr>input_names := ns\<rparr>) ecen gs
           = Inr (concat (map (\<lambda>(g, a, b).
                   input_transforms (self\<lparr>input_names := ns\<rparr>) g ''trck'' a
                   @ input_transforms (self\<lparr>input_names := ns\<rparr>) g ''cscd'' b)
                 (zip gs arrs))))"
      then obtain arrs where arrs: "length arrs = length gs"
        "\<forall>ns. groups_loop wc ev (self\<lparr>input_names := ns\<rparr>) ecen gs
           = Inr (concat (map (\<lambda>(g, a, b).
                   input_transforms (self\<lparr>input_names := ns\<rparr>) g ''trck'' a
                   @ input_transforms (self\<lparr>input_names := ns\<rparr>) g ''cscd'' b)
                 (zip gs arrs)))"
        by blast
      have "length ((a, b) # arrs) = length (g # gs) \<and>
        (\<forall>ns. groups_loop wc ev (self\<lparr>input_names := ns\<rparr>) ecen (g # gs)
           = Inr (concat (map (\<lambda>(g, a, b).
                   input_transforms (self\<lparr>input_names := ns\<rparr>) g ''trck'' a
                   @ input_transforms (self\<lparr>input_names := ns\<rparr>) g ''cscd'' b)
                 (zip (g # gs) ((a, b) # arrs)))))"
        using ok arrs by simp
      then show ?thesis by blast
    qed
  qed
qed

lemma count_input_transforms:
  "length sig' = length sig \<Longrightarrow>
   length (filter (\<lambda>t. xf_input_names t = n \<and> xf_output_name t = suffix_channel n sig)
             (input_transforms self g sig' xa))
     = (if sig' = sig \<and> contains g n then length (filter (\<lambda>x. x = n) (input_names self)) else 0)"
  by (auto simp: input_transforms_def group_inputs_def filter_map comp_def suffix_channel_def
      intro!: arg_cong [where f = length] filter_cong)

lemma input_transforms_member:
  "t \<in> set (input_transforms self g sig xa)
     \<Longrightarrow> xf_input_names t \<in> set (input_names self) \<and> contains g (xf_input_names t)"
  by (auto simp: input_transforms_def group_inputs_def)

lemma load_input_names:
  "load_pid_energy_param hash_obj from_file self src = Inr (self1, reads)
     \<Longrightarrow> load_pid_energy_param hash_obj from_file (self\<lparr>input_names := ns\<rparr>) src
           = Inr (self1\<lparr>input_names := ns\<rparr>, reads)
         \<and> input_names self1 = input_names self
         \<and> transform_groups self1 = transform_groups self
         \<and> input_binning self1 = input_binning self"
  by (auto simp: load_pid_energy_param_def Let_def split: if_splits pyobj.splits sum.splits)

lemma count_blocks:
  assumes "length arrs = length gs" and "sig = ''trck'' \<or> sig = ''cscd''"
  shows "length (filter (\<lambda>t. xf_input_names t = n \<and> xf_output_name t = suffix_channel n sig)
           (concat (map (\<lambda>(g, a, b). input_transforms self g ''trck'' a
                                    @ input_transforms self g ''cscd'' b) (zip gs arrs))))
         = length (filter (\<lambda>x. x = n) (input_names self))
           * length (filter (\<lambda>g. contains g n) gs)"
  using assms
proof (induction arrs gs rule: list_induct2)
  case Nil
  show ?case by simp
next
  case (Cons ab arrs g gs)
  obtain a b where ab: "ab = (a, b)" by (cases ab)
  show ?case
    using Cons.IH Cons.prems
      count_input_transforms [of "''trck''" sig n self g a]
      count_input_transforms [of "''cscd''" sig n self g b]
    by (auto simp: ab)
qed

lemma blocks_member:
  assumes "t \<in> set (concat (map (\<lambda>(g, a, b). input_transforms self g ''trck'' a
                                    @ input_transforms self g ''cscd'' b) (zip gs arrs)))"
  shows "xf_input_names t \<in> set (input_names self)
         \<and> (\<exists>g \<in> set gs. contains g (xf_input_names t))"
proof -
  from assms obtain g a b where "(g, a, b) \<in> set (zip gs arrs)"
    "t \<in> set (input_transforms self g ''trck'' a) \<or> t \<in> set (input_transforms self g ''cscd'' b)"
    by auto
  then show ?thesis
    using input_transforms_member [of t self g] by (auto dest: set_zip_leftD)
qed

text \<open>
  C10. When \<^verbatim>\<open>_compute_nominal_transforms\<close> returns a transform set, every
  transform in it is for an input name that belongs to some configured group; an input
  name gets, for each channel, one transform per group that contains it (and per
  occurrence in the input names), so a name in no group gets none and a name in several
  groups gets a pair from each; and the call returns a transform set whatever the input
  names are, so a name outside every group raises no error and membership of the input
  names in the groups is never checked.
\<close>

theorem inputs_outside_groups_skipped:
  assumes run: "compute_nominal_transforms wc hash_obj from_file ev self
                  = Inr (TransformSet ts, self', reads)"
  shows "(\<forall>t \<in> set ts. xf_input_names t \<in> set (input_names self) \<and>
            (\<exists>g \<in> set (transform_groups self). contains g (xf_input_names t))) \<and>
         (\<forall>n sig. sig = ''trck'' \<or> sig = ''cscd'' \<longrightarrow>
            length (filter (\<lambda>t. xf_input_names t = n \<and>
                                xf_output_name t = suffix_channel n sig) ts)
              = length (filter (\<lambda>x. x = n) (input_names self))
                * length (filter (\<lambda>g. contains g n) (transform_groups self))) \<and>
         (\<forall>ns. \<exists>ts' reads'.
            compute_nominal_transforms wc hash_obj from_file ev (self\<lparr>input_names := ns\<rparr>)
              = Inr (TransformSet ts', self'\<lparr>input_names := ns\<rparr>, reads'))"
proof -
  from run obtain edim where e: "get_dim (input_binning self) ''reco_energy'' = Inr edim"
    and load: "load_pid_energy_param hash_obj from_file self (pid_energy_paramfile self)
                 = Inr (self', reads)"
    and loop: "groups_loop wc ev self' (wc edim) (transform_groups self') = Inr ts"
    by (auto simp: compute_nominal_transforms_def split: sum.splits)
  note l = load_input_names [OF load]
  let ?gs = "transform_groups self"
  have same: "self'\<lparr>input_names := input_names self\<rparr> = self'"
    using l by simp
  from groups_loop_uniform [of wc ev self' "wc edim" ?gs]
  obtain arrs where len: "length arrs = length ?gs"
    and uni: "\<forall>ns. groups_loop wc ev (self'\<lparr>input_names := ns\<rparr>) (wc edim) ?gs
         = Inr (concat (map (\<lambda>(g, a, b).
                   input_transforms (self'\<lparr>input_names := ns\<rparr>) g ''trck'' a
                   @ input_transforms (self'\<lparr>input_names := ns\<rparr>) g ''cscd'' b)
                 (zip ?gs arrs)))"
  proof
    assume "\<exists>e. \<forall>ns. groups_loop wc ev (self'\<lparr>input_names := ns\<rparr>) (wc edim) ?gs = Inl e"
    then obtain e where
      "groups_loop wc ev (self'\<lparr>input_names := input_names self\<rparr>) (wc edim) ?gs = Inl e"
      by blast
    then have False using loop l by (simp add: same)
    then show ?thesis ..
  next
    assume "\<exists>arrs. length arrs = length ?gs \<and>
      (\<forall>ns. groups_loop wc ev (self'\<lparr>input_names := ns\<rparr>) (wc edim) ?gs
         = Inr (concat (map (\<lambda>(g, a, b).
                   input_transforms (self'\<lparr>input_names := ns\<rparr>) g ''trck'' a
                   @ input_transforms (self'\<lparr>input_names := ns\<rparr>) g ''cscd'' b)
                 (zip ?gs arrs))))"
    then show ?thesis using that by blast
  qed
  have ts: "ts = concat (map (\<lambda>(g, a, b). input_transforms self' g ''trck'' a
                                    @ input_transforms self' g ''cscd'' b) (zip ?gs arrs))"
    using uni [rule_format, of "input_names self"] loop l by (simp add: same)
  have a: "\<forall>t \<in> set ts. xf_input_names t \<in> set (input_names self) \<and>
            (\<exists>g \<in> set ?gs. contains g (xf_input_names t))"
    using blocks_member [of _ self' ?gs arrs] l unfolding ts by auto
  have b: "\<forall>n sig. sig = ''trck'' \<or> sig = ''cscd'' \<longrightarrow>
            length (filter (\<lambda>t. xf_input_names t = n \<and>
                                xf_output_name t = suffix_channel n sig) ts)
              = length (filter (\<lambda>x. x = n) (input_names self))
                * length (filter (\<lambda>g. contains g n) ?gs)"
    using count_blocks [OF len, of _ _ self'] l unfolding ts by auto
  have c: "\<exists>ts' reads'.
            compute_nominal_transforms wc hash_obj from_file ev (self\<lparr>input_names := ns\<rparr>)
              = Inr (TransformSet ts', self'\<lparr>input_names := ns\<rparr>, reads')" for ns
    using e l uni [rule_format, of ns]
    by (simp add: compute_nominal_transforms_def)
  show ?thesis using a b c by blast
qed

lemma overlap_run:
  "compute_nominal_transforms example_centers example_hash example_reader example_eval
       overlap_stage
     = Inr (TransformSet
         [example_xform ''numu_cc'' ''trck'' (NDArray [3] [9 / 10, 9 / 10, 9 / 10]),
          example_xform ''numu_cc'' ''cscd'' (NDArray [3] [1 / 10, 1 / 10, 1 / 10]),
          example_xform ''numu_cc'' ''trck'' (NDArray [3] [9 / 10, 9 / 10, 9 / 10]),
          example_xform ''numubar_cc'' ''trck'' (NDArray [3] [9 / 10, 9 / 10, 9 / 10]),
          example_xform ''numu_cc'' ''cscd'' (NDArray [3] [1 / 10, 1 / 10, 1 / 10]),
          example_xform ''numubar_cc'' ''cscd'' (NDArray [3] [1 / 10, 1 / 10, 1 / 10])],
         overlap_stage\<lparr>energy_param_dict := Some (Dict vector_param),
                        energy_param_hash := Some 7\<rparr>, [])"
  by (simp add: run_defs example_stage_def example_centers_def names_def get_dim_def
      vector_param_def example_dim_def overlap_stage_def numu_pair_group_def example_xform_def)

theorem inputs_outside_groups_skipped_witness:
  "\<exists>ts s r.
     compute_nominal_transforms example_centers example_hash example_reader example_eval
         overlap_stage = Inr (TransformSet ts, s, r) \<and>
     filter (\<lambda>t. xf_input_names t = ''nue_cc'') ts = [] \<and>
     length (filter (\<lambda>t. xf_input_names t = ''numu_cc'' \<and>
                         xf_output_name t = suffix_channel ''numu_cc'' ''trck'') ts) = 2 \<and>
     length (filter (\<lambda>t. xf_input_names t = ''numubar_cc'' \<and>
                         xf_output_name t = suffix_channel ''numubar_cc'' ''cscd'') ts) = 1"
proof -
  note spec = inputs_outside_groups_skipped [OF overlap_run]
  let ?ts = "[example_xform ''numu_cc'' ''trck'' (NDArray [3] [9 / 10, 9 / 10, 9 / 10]),
          example_xform ''numu_cc'' ''cscd'' (NDArray [3] [1 / 10, 1 / 10, 1 / 10]),
          example_xform ''numu_cc'' ''trck'' (NDArray [3] [9 / 10, 9 / 10, 9 / 10]),
          example_xform ''numubar_cc'' ''trck'' (NDArray [3] [9 / 10, 9 / 10, 9 / 10]),
          example_xform ''numu_cc'' ''cscd'' (NDArray [3] [1 / 10, 1 / 10, 1 / 10]),
          example_xform ''numubar_cc'' ''cscd'' (NDArray [3] [1 / 10, 1 / 10, 1 / 10])]"
  have groups: "transform_groups overlap_stage = [numu_cc_group, numu_pair_group]"
    and inputs: "input_names overlap_stage = [''numu_cc'', ''numubar_cc'', ''nue_cc'']"
    by (simp_all add: overlap_stage_def)
  have "\<forall>t \<in> set ?ts. xf_input_names t \<noteq> ''nue_cc''"
    using spec [THEN conjunct1]
    by (auto simp: groups numu_cc_group_def numu_pair_group_def)
  then have a: "filter (\<lambda>t. xf_input_names t = ''nue_cc'') ?ts = []"
    by (simp only: filter_empty_conv)
  have b: "length (filter (\<lambda>t. xf_input_names t = ''numu_cc'' \<and>
                         xf_output_name t = suffix_channel ''numu_cc'' ''trck'') ?ts) = 2"
    using spec [THEN conjunct2, THEN conjunct1, rule_format, of "''trck''" "''numu_cc''"]
    by (simp add: groups inputs numu_cc_group_def numu_pair_group_def)
  have c: "length (filter (\<lambda>t. xf_input_names t = ''numubar_cc'' \<and>
                         xf_output_name t = suffix_channel ''numubar_cc'' ''cscd'') ?ts) = 1"
    using spec [THEN conjunct2, THEN conjunct1, rule_format, of "''cscd''" "''numubar_cc''"]
    by (simp add: groups inputs numu_cc_group_def numu_pair_group_def)
  show ?thesis using overlap_run a b c by blast
qed






lemma input_transforms_cong:
  "input_binning sB = input_binning sA \<Longrightarrow> input_names sB = input_names sA
     \<Longrightarrow> input_transforms sB g sig xa = input_transforms sA g sig xa"
  by (simp add: input_transforms_def group_inputs_def)










subsection \<open>The arrays that the transforms carry\<close>

lemma make_xform_array_broadcast:
  assumes e: "get_dim (input_binning self) ''reco_energy'' = Inr edim"
      and vec: "shape pid1d = [length (wc edim)]" "length (flat pid1d) = length (wc edim)"
      and r: "make_xform_array wc self (wc edim) pid1d = Inr xa"
  shows "broadcast_of wc (input_binning self) pid1d xa"
proof -
  note s = make_xform_array_shape [where wc = wc and edim = edim and pid1d = pid1d
      and self = self, OF vec e]
  have c1: "xa = pid1d \<and> shape xa = binning_shape wc (input_binning self)"
    if "names (input_binning self) = [''reco_energy'']"
    using s that r by auto
  have c2: "shape xa = binning_shape wc (input_binning self) \<and>
            (\<forall>i < length (wc (input_binning self ! 0)). \<forall>j < length (wc (input_binning self ! 1)).
               item xa [i, j] = item pid1d [i])"
    if n: "names (input_binning self) = [''reco_energy'', ''reco_coszen'']"
  proof -
    from n obtain d0 d1 where b: "input_binning self = [d0, d1]" "name d0 = ''reco_energy''"
      by (auto simp: names_def)
    then have "edim = d0" using e by (simp add: get_dim_def)
    then show ?thesis using s n r b by auto
  qed
  have c3: "shape xa = binning_shape wc (input_binning self) \<and>
            (\<forall>i < length (wc (input_binning self ! 1)). \<forall>j < length (wc (input_binning self ! 0)).
               item xa [j, i] = item pid1d [i])"
    if n: "names (input_binning self) = [''reco_coszen'', ''reco_energy'']"
  proof -
    from n obtain d0 d1 where b: "input_binning self = [d0, d1]" "name d0 = ''reco_coszen''"
      "name d1 = ''reco_energy''"
      by (auto simp: names_def)
    then have "edim = d1" using e by (simp add: get_dim_def)
    then show ?thesis using s n r b by auto
  qed
  show ?thesis unfolding broadcast_of_def using c1 c2 c3 by blast
qed

lemma channel_array_curve:
  assumes "channel_array wc ev self ecen ep sig = Inr xa"
  shows "\<exists>expr f pid1d. dict_get ep sig = Inr (Str expr) \<and> ev (norm_alias expr) = Inr f \<and>
           f ecen = Inr pid1d \<and> make_xform_array wc self ecen pid1d = Inr xa"
  using assms by (auto simp: channel_array_def split: sum.splits pyobj.splits)

lemma group_transforms_curves:
  assumes "group_transforms wc ev self ecen g = Inr tg"
  shows "\<exists>ep a b. find_energy_param self (str g) = Inr (Dict ep) \<and>
           tg = input_transforms self g ''trck'' a @ input_transforms self g ''cscd'' b \<and>
           channel_array wc ev self ecen ep ''trck'' = Inr a \<and>
           channel_array wc ev self ecen ep ''cscd'' = Inr b"
  using assms unfolding group_transforms_unfold
  by (auto split: sum.splits pyobj.splits if_splits)

lemma groups_loop_concat:
  "groups_loop wc ev self ecen gs = Inr ts
     \<Longrightarrow> \<exists>tss. ts = concat tss \<and>
           list_all2 (\<lambda>g tg. group_transforms wc ev self ecen g = Inr tg) gs tss"
proof (induction gs arbitrary: ts)
  case Nil
  then show ?case by simp
next
  case (Cons g gs)
  then obtain tg ts' where g: "group_transforms wc ev self ecen g = Inr tg"
    and l: "groups_loop wc ev self ecen gs = Inr ts'" and ts: "ts = tg @ ts'"
    by (auto split: sum.splits)
  from Cons.IH [OF l] obtain tss where "ts' = concat tss"
    "list_all2 (\<lambda>g tg. group_transforms wc ev self ecen g = Inr tg) gs tss"
    by blast
  then have "ts = concat (tg # tss) \<and>
     list_all2 (\<lambda>g tg. group_transforms wc ev self ecen g = Inr tg) (g # gs) (tg # tss)"
    using g ts by simp
  then show ?case by blast
qed

text \<open>
  C2, as the code has it. A transform set returned by
  \<^verbatim>\<open>_compute_nominal_transforms\<close> is, group by group in the configured order, the
  transforms of the track channel followed by those of the cascade channel, one for each
  input name of the group, all transforms of a group and channel carrying one array. This
  array comes from the expression stored for that channel in the entry that the group
  resolves to: the expression is evaluated, its function is called once with the array of
  the energy bin centres, and when the result is a one-dimensional array with one value
  for each energy bin centre, the array that the transforms carry has the shape of the
  input binning. With an energy-only binning it is that curve; with an energy and zenith
  binning it is two-dimensional, its axes in the declared order of the binning (energy
  first, or zenith first by transposition), and its value at energy index \<open>i\<close> and
  zenith index \<open>j\<close> is the curve's value at \<open>i\<close>.
\<close>

theorem transforms_carry_broadcast_curve:
  assumes run: "compute_nominal_transforms wc hash_obj from_file ev self
                  = Inr (TransformSet ts, self', reads)"
  shows "\<exists>edim tss.
           get_dim (input_binning self) ''reco_energy'' = Inr edim \<and> ts = concat tss \<and>
           list_all2
             (\<lambda>g tg. \<exists>ep a_trck a_cscd.
                find_energy_param self' (str g) = Inr (Dict ep) \<and>
                tg = input_transforms self g ''trck'' a_trck
                     @ input_transforms self g ''cscd'' a_cscd \<and>
                (\<exists>expr f pid1d.
                   dict_get ep ''trck'' = Inr (Str expr) \<and> ev (norm_alias expr) = Inr f \<and>
                   f (wc edim) = Inr pid1d \<and>
                   (shape pid1d = [length (wc edim)] \<and> length (flat pid1d) = length (wc edim)
                      \<longrightarrow> broadcast_of wc (input_binning self) pid1d a_trck)) \<and>
                (\<exists>expr f pid1d.
                   dict_get ep ''cscd'' = Inr (Str expr) \<and> ev (norm_alias expr) = Inr f \<and>
                   f (wc edim) = Inr pid1d \<and>
                   (shape pid1d = [length (wc edim)] \<and> length (flat pid1d) = length (wc edim)
                      \<longrightarrow> broadcast_of wc (input_binning self) pid1d a_cscd)))
             (transform_groups self) tss"
proof -
  from run obtain edim where e: "get_dim (input_binning self) ''reco_energy'' = Inr edim"
    and load: "load_pid_energy_param hash_obj from_file self (pid_energy_paramfile self)
                 = Inr (self', reads)"
    and loop: "groups_loop wc ev self' (wc edim) (transform_groups self') = Inr ts"
    by (auto simp: compute_nominal_transforms_def split: sum.splits)
  note l = load_input_names [OF load]
  have b: "input_binning self' = input_binning self" and n: "input_names self' = input_names self"
    and gs: "transform_groups self' = transform_groups self"
    using l by simp_all
  have e': "get_dim (input_binning self') ''reco_energy'' = Inr edim"
    using e b by simp
  from groups_loop_concat [OF loop] obtain tss where ts: "ts = concat tss"
    and all: "list_all2 (\<lambda>g tg. group_transforms wc ev self' (wc edim) g = Inr tg)
                (transform_groups self) tss"
    using gs by auto
  have curve: "\<exists>expr f pid1d.
         dict_get ep sig = Inr (Str expr) \<and> ev (norm_alias expr) = Inr f \<and>
         f (wc edim) = Inr pid1d \<and>
         (shape pid1d = [length (wc edim)] \<and> length (flat pid1d) = length (wc edim)
            \<longrightarrow> broadcast_of wc (input_binning self) pid1d xa)"
    if "channel_array wc ev self' (wc edim) ep sig = Inr xa" for ep sig xa
  proof -
    from channel_array_curve [OF that] obtain expr f pid1d where
      c: "dict_get ep sig = Inr (Str expr)" "ev (norm_alias expr) = Inr f"
        "f (wc edim) = Inr pid1d"
      and m: "make_xform_array wc self' (wc edim) pid1d = Inr xa"
      by blast
    have "broadcast_of wc (input_binning self) pid1d xa"
      if "shape pid1d = [length (wc edim)]" "length (flat pid1d) = length (wc edim)"
      using make_xform_array_broadcast [where wc = wc and self = self' and edim = edim
          and pid1d = pid1d and xa = xa, OF e' that m] b by simp
    then show ?thesis using c by blast
  qed
  have step: "\<exists>ep a_trck a_cscd.
        find_energy_param self' (str g) = Inr (Dict ep) \<and>
        tg = input_transforms self g ''trck'' a_trck @ input_transforms self g ''cscd'' a_cscd \<and>
        (\<exists>expr f pid1d.
           dict_get ep ''trck'' = Inr (Str expr) \<and> ev (norm_alias expr) = Inr f \<and>
           f (wc edim) = Inr pid1d \<and>
           (shape pid1d = [length (wc edim)] \<and> length (flat pid1d) = length (wc edim)
              \<longrightarrow> broadcast_of wc (input_binning self) pid1d a_trck)) \<and>
        (\<exists>expr f pid1d.
           dict_get ep ''cscd'' = Inr (Str expr) \<and> ev (norm_alias expr) = Inr f \<and>
           f (wc edim) = Inr pid1d \<and>
           (shape pid1d = [length (wc edim)] \<and> length (flat pid1d) = length (wc edim)
              \<longrightarrow> broadcast_of wc (input_binning self) pid1d a_cscd))"
    if "group_transforms wc ev self' (wc edim) g = Inr tg" for g tg
  proof -
    from group_transforms_curves [OF that] obtain ep a c where
      f: "find_energy_param self' (str g) = Inr (Dict ep)"
      and tg: "tg = input_transforms self' g ''trck'' a @ input_transforms self' g ''cscd'' c"
      and ca: "channel_array wc ev self' (wc edim) ep ''trck'' = Inr a"
      and cc: "channel_array wc ev self' (wc edim) ep ''cscd'' = Inr c"
      by blast
    have tg': "tg = input_transforms self g ''trck'' a @ input_transforms self g ''cscd'' c"
      using tg input_transforms_cong [OF b n] by simp
    show ?thesis using f tg' curve [OF ca] curve [OF cc] by blast
  qed
  have "list_all2
          (\<lambda>g tg. \<exists>ep a_trck a_cscd.
             find_energy_param self' (str g) = Inr (Dict ep) \<and>
             tg = input_transforms self g ''trck'' a_trck
                  @ input_transforms self g ''cscd'' a_cscd \<and>
             (\<exists>expr f pid1d.
                dict_get ep ''trck'' = Inr (Str expr) \<and> ev (norm_alias expr) = Inr f \<and>
                f (wc edim) = Inr pid1d \<and>
                (shape pid1d = [length (wc edim)] \<and> length (flat pid1d) = length (wc edim)
                   \<longrightarrow> broadcast_of wc (input_binning self) pid1d a_trck)) \<and>
             (\<exists>expr f pid1d.
                dict_get ep ''cscd'' = Inr (Str expr) \<and> ev (norm_alias expr) = Inr f \<and>
                f (wc edim) = Inr pid1d \<and>
                (shape pid1d = [length (wc edim)] \<and> length (flat pid1d) = length (wc edim)
                   \<longrightarrow> broadcast_of wc (input_binning self) pid1d a_cscd)))
          (transform_groups self) tss"
    using all step by (rule list_all2_mono)
  then show ?thesis using e ts by blast
qed

lemma decay_run:
  "\<exists>ts. compute_nominal_transforms example_centers example_hash example_reader curve_eval
       (example_stage [''reco_coszen'', ''reco_energy''] decay_param)
     = Inr (TransformSet ts,
            (example_stage [''reco_coszen'', ''reco_energy''] decay_param)
              \<lparr>energy_param_dict := Some (Dict decay_param), energy_param_hash := Some 7\<rparr>,
            [])"
  by (simp add: compute_nominal_transforms_def load_pid_energy_param_def
      find_energy_param_def group_transforms_def channel_transforms_def channel_array_def
      make_xform_array_def dict_get_def keys_def output_channels_def norm_alias_def
      numu_cc_group_def curve_eval_def example_hash_def np_reshape_def np_repeat_def
      example_stage_def example_centers_def names_def get_dim_def decay_param_def
      example_dim_def)

theorem transforms_carry_broadcast_curve_witness:
  "\<exists>ts s r a_trck a_cscd.
     compute_nominal_transforms example_centers example_hash example_reader curve_eval
         (example_stage [''reco_coszen'', ''reco_energy''] decay_param)
       = Inr (TransformSet ts, s, r) \<and>
     ts = input_transforms (example_stage [''reco_coszen'', ''reco_energy''] decay_param)
            numu_cc_group ''trck'' a_trck
          @ input_transforms (example_stage [''reco_coszen'', ''reco_energy''] decay_param)
            numu_cc_group ''cscd'' a_cscd \<and>
     shape a_trck = [2, 3] \<and> item a_trck [0, 1] = 1 / 10 \<and> item a_trck [1, 2] = 1 / 100 \<and>
     shape a_cscd = [2, 3] \<and> item a_cscd [0, 1] = 9 / 10 \<and> item a_cscd [1, 2] = 99 / 100"
proof -
  let ?self = "example_stage [''reco_coszen'', ''reco_energy''] decay_param"
  let ?self' = "?self\<lparr>energy_param_dict := Some (Dict decay_param),
                         energy_param_hash := Some 7\<rparr>"
  let ?b = "input_binning ?self"
  from decay_run obtain ts where
    run: "compute_nominal_transforms example_centers example_hash example_reader curve_eval
            ?self = Inr (TransformSet ts, ?self', [])"
    by blast
  have nb: "names ?b = [''reco_coszen'', ''reco_energy'']"
    and sb: "binning_shape example_centers ?b = [2, 3]"
    and c0: "length (example_centers (?b ! 0)) = 2" and c1: "length (example_centers (?b ! 1)) = 3"
    and ed: "get_dim ?b ''reco_energy'' = Inr (example_dim ''reco_energy'')"
    and cen: "example_centers (example_dim ''reco_energy'') = [1, 10, 100]"
    and gs: "transform_groups ?self = [numu_cc_group]"
    by (simp_all add: example_defs)
  have fnd: "find_energy_param ?self' (str numu_cc_group)
               = Inr (Dict [(''trck'', Str ''lambda E: 1. / E''),
                            (''cscd'', Str ''lambda E: 1. - 1. / E'')])"
    by (simp add: find_energy_param_def numu_cc_group_def decay_param_def keys_def dict_get_def)
  define P where "P = (\<lambda>e g tg. \<exists>ep a_trck a_cscd.
                find_energy_param ?self' (str g) = Inr (Dict ep) \<and>
                tg = input_transforms ?self g ''trck'' a_trck
                     @ input_transforms ?self g ''cscd'' a_cscd \<and>
                (\<exists>expr f pid1d.
                   dict_get ep ''trck'' = Inr (Str expr) \<and> curve_eval (norm_alias expr) = Inr f \<and>
                   f (example_centers e) = Inr pid1d \<and>
                   (shape pid1d = [length (example_centers e)] \<and>
                    length (flat pid1d) = length (example_centers e)
                      \<longrightarrow> broadcast_of example_centers ?b pid1d a_trck)) \<and>
                (\<exists>expr f pid1d.
                   dict_get ep ''cscd'' = Inr (Str expr) \<and> curve_eval (norm_alias expr) = Inr f \<and>
                   f (example_centers e) = Inr pid1d \<and>
                   (shape pid1d = [length (example_centers e)] \<and>
                    length (flat pid1d) = length (example_centers e)
                      \<longrightarrow> broadcast_of example_centers ?b pid1d a_cscd)))"
  from transforms_carry_broadcast_curve [OF run] obtain edim tss where
    e: "get_dim ?b ''reco_energy'' = Inr edim" and ts: "ts = concat tss"
    and all: "list_all2 (P edim) (transform_groups ?self) tss"
    unfolding P_def by blast
  have edim: "example_centers edim = [1, 10, 100]"
    using e ed cen by simp
  from all obtain tg where tss: "tss = [tg]" and tg: "P edim numu_cc_group tg"
    unfolding gs by (auto simp: list_all2_Cons1)
  from tg obtain ep a c e1 f1 p1 e2 f2 p2 where
    ep: "find_energy_param ?self' (str numu_cc_group) = Inr (Dict ep)"
    and tg': "tg = input_transforms ?self numu_cc_group ''trck'' a
               @ input_transforms ?self numu_cc_group ''cscd'' c"
    and t1: "dict_get ep ''trck'' = Inr (Str e1)" "curve_eval (norm_alias e1) = Inr f1"
      "f1 [1, 10, 100] = Inr p1"
    and b1: "shape p1 = [length [1, 10, 100 :: real]] \<and>
             length (flat p1) = length [1, 10, 100 :: real]
               \<longrightarrow> broadcast_of example_centers ?b p1 a"
    and t2: "dict_get ep ''cscd'' = Inr (Str e2)" "curve_eval (norm_alias e2) = Inr f2"
      "f2 [1, 10, 100] = Inr p2"
    and b2: "shape p2 = [length [1, 10, 100 :: real]] \<and>
             length (flat p2) = length [1, 10, 100 :: real]
               \<longrightarrow> broadcast_of example_centers ?b p2 c"
    unfolding P_def edim by blast
  have ep': "ep = [(''trck'', Str ''lambda E: 1. / E''), (''cscd'', Str ''lambda E: 1. - 1. / E'')]"
    using ep fnd by simp
  have "e1 = ''lambda E: 1. / E''" and "e2 = ''lambda E: 1. - 1. / E''"
    using t1(1) t2(1) by (simp_all add: ep' dict_get_def)
  then have "p1 = NDArray [3] [1, 1 / 10, 1 / 100]" and "p2 = NDArray [3] [0, 9 / 10, 99 / 100]"
    using t1(2,3) t2(2,3) by (auto simp: curve_eval_def norm_alias_def)
  then have ba: "broadcast_of example_centers ?b (NDArray [3] [1, 1 / 10, 1 / 100]) a"
    and bc: "broadcast_of example_centers ?b (NDArray [3] [0, 9 / 10, 99 / 100]) c"
    using b1 b2 by simp_all
  have va: "shape a = [2, 3]"
    and ia: "\<forall>i<3. \<forall>j<2. item a [j, i] = item (NDArray [3] [1, 1 / 10, 1 / 100]) [i]"
    using ba nb sb c0 c1 unfolding broadcast_of_def by simp_all
  have vc: "shape c = [2, 3]"
    and ic: "\<forall>i<3. \<forall>j<2. item c [j, i] = item (NDArray [3] [0, 9 / 10, 99 / 100]) [i]"
    using bc nb sb c0 c1 unfolding broadcast_of_def by simp_all
  have "item a [0, 1] = 1 / 10" "item a [1, 2] = 1 / 100"
    using ia by (simp_all add: item_def)
  moreover have "item c [0, 1] = 9 / 10" "item c [1, 2] = 99 / 100"
    using ic by (simp_all add: item_def)
  ultimately show ?thesis
    using run ts tss tg' va vc by auto
qed

end
